theory Spec2Isabelle
  imports
    Complex_Main
    "HOL-Library.List_Lexorder"
    "HOL-Library.Char_ord"
    "HOL-Library.Product_Lexorder"
    "HOL-Library.Multiset"
begin

section \<open>Data model of \<^verbatim>\<open>analysis/advanced_risk_analysis.py\<close>\<close>

text \<open>
  The module works on pandas data frames. A data frame is modelled as the list of its rows,
  a row as a record with one field per column. A cell that pandas holds as NaN (a missing
  CSV cell, or the cell of an absent side after an outer merge) is \<open>None\<close>. Numbers are
  float64 in the program and exact reals here, so the theorems below are about the
  arithmetic the program denotes, without the rounding of floating point.

  A date is the triple (year, month, day); the lexicographic order of triples is the
  chronological order.
\<close>

type_synonym date = "nat \<times> nat \<times> nat"

type_synonym key = "date \<times> string \<times> string"

text \<open>The three input frames, as \<open>load_all_datasets\<close> leaves them.\<close>

record enrol_rec =
  e_date :: "date option"
  e_state :: "string option"
  e_district :: "string option"
  e_pincode :: "string option"
  e_age_0_5 :: "real option"
  e_age_5_17 :: "real option"
  e_age_18_greater :: "real option"

record demo_rec =
  d_date :: "date option"
  d_state :: "string option"
  d_district :: "string option"
  d_pincode :: "string option"
  d_demo_age_5_17 :: "real option"
  d_demo_age_17 :: "real option"

record bio_rec =
  b_date :: "date option"
  b_state :: "string option"
  b_district :: "string option"
  b_pincode :: "string option"
  b_bio_age_5_17 :: "real option"
  b_bio_age_17 :: "real option"

subsection \<open>Group-by, aggregation and merge of pandas\<close>

text \<open>
  \<open>groupby(keys)\<close> with its defaults drops the rows that have a missing key cell, makes one
  group per distinct key and lists the groups in ascending key order.
\<close>

definition mk_key :: "date option \<Rightarrow> string option \<Rightarrow> string option \<Rightarrow> key option" where
  "mk_key d s t =
     (case d of None \<Rightarrow> None
      | Some d' \<Rightarrow> (case s of None \<Rightarrow> None
          | Some s' \<Rightarrow> (case t of None \<Rightarrow> None | Some t' \<Rightarrow> Some (d', s', t'))))"

definition group_keys :: "('r \<Rightarrow> 'k option) \<Rightarrow> 'r list \<Rightarrow> ('k::linorder) list" where
  "group_keys kf rows = sort (remdups (List.map_filter kf rows))"

definition group_rows :: "('r \<Rightarrow> 'k option) \<Rightarrow> 'r list \<Rightarrow> 'k \<Rightarrow> 'r list" where
  "group_rows kf rows k = filter (\<lambda>r. kf r = Some k) rows"

text \<open>\<open>'sum'\<close> skips missing cells (the sum of none is 0); \<open>'count'\<close> counts the present cells.\<close>

definition agg_sum :: "real option list \<Rightarrow> real" where
  "agg_sum cells = sum_list (List.map_filter (\<lambda>c. c) cells)"

definition agg_count :: "'a option list \<Rightarrow> real" where
  "agg_count cells = real (length (filter (\<lambda>c. c \<noteq> None) cells))"

text \<open>
  \<open>merge(on=keys, how='outer')\<close>: the keys of both sides in ascending order; for a key on
  both sides every pairing of a left and a right row, for a key on one side only that side's
  rows with the other side missing.
\<close>

definition rows_of :: "('k \<times> 'a) list \<Rightarrow> 'k \<Rightarrow> 'a list" where
  "rows_of tbl k = map snd (filter (\<lambda>p. fst p = k) tbl)"

definition merge_at :: "'k \<Rightarrow> 'a list \<Rightarrow> 'b list \<Rightarrow> ('k \<times> 'a option \<times> 'b option) list" where
  "merge_at k ls rs =
     (if ls = [] then map (\<lambda>b. (k, None, Some b)) rs
      else if rs = [] then map (\<lambda>a. (k, Some a, None)) ls
      else concat (map (\<lambda>a. map (\<lambda>b. (k, Some a, Some b)) rs) ls))"

definition outer_merge ::
  "(('k::linorder) \<times> 'a) list \<Rightarrow> ('k \<times> 'b) list \<Rightarrow> ('k \<times> 'a option \<times> 'b option) list" where
  "outer_merge l r =
     concat (map (\<lambda>k. merge_at k (rows_of l k) (rows_of r k))
                 (sort (remdups (map fst l @ map fst r))))"

definition fillna0 :: "real option \<Rightarrow> real" where
  "fillna0 c = (case c of None \<Rightarrow> 0 | Some v \<Rightarrow> v)"

subsection \<open>\<open>create_integrated_dataset\<close>\<close>

record enrol_agg_row =
  ea_age_0_5 :: real
  ea_age_5_17 :: real
  ea_age_18_greater :: real
  ea_enrol_count :: real

record demo_agg_row =
  da_demo_age_5_17 :: real
  da_demo_age_17 :: real
  da_demo_count :: real

record bio_agg_row =
  ba_bio_age_5_17 :: real
  ba_bio_age_17 :: real
  ba_bio_count :: real

definition enrol_key :: "enrol_rec \<Rightarrow> key option" where
  "enrol_key r = mk_key (e_date r) (e_state r) (e_district r)"

definition demo_key :: "demo_rec \<Rightarrow> key option" where
  "demo_key r = mk_key (d_date r) (d_state r) (d_district r)"

definition bio_key :: "bio_rec \<Rightarrow> key option" where
  "bio_key r = mk_key (b_date r) (b_state r) (b_district r)"

definition enrol_agg :: "enrol_rec list \<Rightarrow> (key \<times> enrol_agg_row) list" where
  "enrol_agg rows =
     map (\<lambda>k. let g = group_rows enrol_key rows k in
            (k, \<lparr> ea_age_0_5 = agg_sum (map e_age_0_5 g),
                  ea_age_5_17 = agg_sum (map e_age_5_17 g),
                  ea_age_18_greater = agg_sum (map e_age_18_greater g),
                  ea_enrol_count = agg_count (map e_pincode g) \<rparr>))
         (group_keys enrol_key rows)"

definition demo_agg :: "demo_rec list \<Rightarrow> (key \<times> demo_agg_row) list" where
  "demo_agg rows =
     map (\<lambda>k. let g = group_rows demo_key rows k in
            (k, \<lparr> da_demo_age_5_17 = agg_sum (map d_demo_age_5_17 g),
                  da_demo_age_17 = agg_sum (map d_demo_age_17 g),
                  da_demo_count = agg_count (map d_pincode g) \<rparr>))
         (group_keys demo_key rows)"

definition bio_agg :: "bio_rec list \<Rightarrow> (key \<times> bio_agg_row) list" where
  "bio_agg rows =
     map (\<lambda>k. let g = group_rows bio_key rows k in
            (k, \<lparr> ba_bio_age_5_17 = agg_sum (map b_bio_age_5_17 g),
                  ba_bio_age_17 = agg_sum (map b_bio_age_17 g),
                  ba_bio_count = agg_count (map b_pincode g) \<rparr>))
         (group_keys bio_key rows)"

text \<open>
  The merged frame before \<open>fillna\<close>: the key columns and the nine aggregate columns, each
  possibly missing.
\<close>

record merged_nan =
  n_date :: date
  n_state :: string
  n_district :: string
  n_age_0_5 :: "real option"
  n_age_5_17 :: "real option"
  n_age_18_greater :: "real option"
  n_enrol_count :: "real option"
  n_demo_age_5_17 :: "real option"
  n_demo_age_17 :: "real option"
  n_demo_count :: "real option"
  n_bio_age_5_17 :: "real option"
  n_bio_age_17 :: "real option"
  n_bio_count :: "real option"

definition merge_all ::
  "(key \<times> enrol_agg_row) list \<Rightarrow> (key \<times> demo_agg_row) list \<Rightarrow> (key \<times> bio_agg_row) list
     \<Rightarrow> merged_nan list" where
  "merge_all ea da ba =
     map (\<lambda>(k, ed, b).
            let e = (case ed of None \<Rightarrow> None | Some p \<Rightarrow> fst p);
                d = (case ed of None \<Rightarrow> None | Some p \<Rightarrow> snd p) in
            \<lparr> n_date = fst k, n_state = fst (snd k), n_district = snd (snd k),
              n_age_0_5 = map_option ea_age_0_5 e,
              n_age_5_17 = map_option ea_age_5_17 e,
              n_age_18_greater = map_option ea_age_18_greater e,
              n_enrol_count = map_option ea_enrol_count e,
              n_demo_age_5_17 = map_option da_demo_age_5_17 d,
              n_demo_age_17 = map_option da_demo_age_17 d,
              n_demo_count = map_option da_demo_count d,
              n_bio_age_5_17 = map_option ba_bio_age_5_17 b,
              n_bio_age_17 = map_option ba_bio_age_17 b,
              n_bio_count = map_option ba_bio_count b \<rparr>)
         (outer_merge (map (\<lambda>(k, e, d). (k, (e, d))) (outer_merge ea da)) ba)"

text \<open>The combined frame after \<open>fillna(0)\<close>.\<close>

record merged_row =
  date :: date
  state :: string
  district :: string
  age_0_5 :: real
  age_5_17 :: real
  age_18_greater :: real
  enrol_count :: real
  demo_age_5_17 :: real
  demo_age_17 :: real
  demo_count :: real
  bio_age_5_17 :: real
  bio_age_17 :: real
  bio_count :: real

definition fillna_row :: "merged_nan \<Rightarrow> merged_row" where
  "fillna_row n =
     \<lparr> date = n_date n, state = n_state n, district = n_district n,
       age_0_5 = fillna0 (n_age_0_5 n),
       age_5_17 = fillna0 (n_age_5_17 n),
       age_18_greater = fillna0 (n_age_18_greater n),
       enrol_count = fillna0 (n_enrol_count n),
       demo_age_5_17 = fillna0 (n_demo_age_5_17 n),
       demo_age_17 = fillna0 (n_demo_age_17 n),
       demo_count = fillna0 (n_demo_count n),
       bio_age_5_17 = fillna0 (n_bio_age_5_17 n),
       bio_age_17 = fillna0 (n_bio_age_17 n),
       bio_count = fillna0 (n_bio_count n) \<rparr>"

definition combined_of ::
  "enrol_rec list \<Rightarrow> demo_rec list \<Rightarrow> bio_rec list \<Rightarrow> merged_row list" where
  "combined_of es ds bs = map fillna_row (merge_all (enrol_agg es) (demo_agg ds) (bio_agg bs))"

subsection \<open>\<open>_engineer_features\<close>\<close>

text \<open>
  The columns added to the combined frame. \<open>np.where(c, a, b)\<close> takes \<open>a\<close> on the rows where
  \<open>c\<close> holds and \<open>b\<close> on the others; a quotient by 0 computed for a row where \<open>c\<close> fails is
  dropped. The calendar columns (\<open>month\<close>, \<open>quarter\<close>, \<open>day_of_week\<close> and the three season
  flags) are functions of \<open>date\<close> alone that no score reads; they are left out.
\<close>

record feature_row = merged_row +
  total_enrol :: real
  total_demo :: real
  total_bio :: real
  demo_enrol_gap :: real
  bio_enrol_gap :: real
  bio_demo_gap :: real
  demo_completion_rate :: real
  bio_completion_rate :: real
  youth_ratio_enrol :: real
  youth_ratio_demo :: real
  youth_ratio_bio :: real

definition engineer_row :: "merged_row \<Rightarrow> feature_row" where
  "engineer_row r =
     (let te = age_0_5 r + age_5_17 r + age_18_greater r;
          td = demo_age_5_17 r + demo_age_17 r;
          tb = bio_age_5_17 r + bio_age_17 r in
      \<lparr> date = date r, state = state r, district = district r,
        age_0_5 = age_0_5 r, age_5_17 = age_5_17 r, age_18_greater = age_18_greater r,
        enrol_count = enrol_count r,
        demo_age_5_17 = demo_age_5_17 r, demo_age_17 = demo_age_17 r,
        demo_count = demo_count r,
        bio_age_5_17 = bio_age_5_17 r, bio_age_17 = bio_age_17 r, bio_count = bio_count r,
        total_enrol = te, total_demo = td, total_bio = tb,
        demo_enrol_gap = enrol_count r - demo_count r,
        bio_enrol_gap = enrol_count r - bio_count r,
        bio_demo_gap = demo_count r - bio_count r,
        demo_completion_rate =
          (if enrol_count r > 0 then (demo_count r / enrol_count r) * 100 else 100),
        bio_completion_rate =
          (if enrol_count r > 0 then (bio_count r / enrol_count r) * 100 else 100),
        youth_ratio_enrol = (if te > 0 then age_5_17 r / te else 0),
        youth_ratio_demo = (if td > 0 then demo_age_5_17 r / td else 0),
        youth_ratio_bio = (if tb > 0 then bio_age_5_17 r / tb else 0) \<rparr>)"

definition engineer_features :: "merged_row list \<Rightarrow> feature_row list" where
  "engineer_features df = map engineer_row df"

definition create_integrated_dataset ::
  "enrol_rec list \<Rightarrow> demo_rec list \<Rightarrow> bio_rec list \<Rightarrow> feature_row list" where
  "create_integrated_dataset es ds bs = engineer_features (combined_of es ds bs)"

subsection \<open>\<open>calculate_exclusion_risk_score\<close>\<close>

text \<open>
  The district-level aggregation. \<open>'mean'\<close> is the arithmetic mean of the group (a group of
  \<open>groupby\<close> is never empty). \<open>'std'\<close> is the sample standard deviation, with divisor
  \<open>n - 1\<close>; for a group of one row it is missing, and
  \<open>district_risk['bio_gap_volatility'].fillna(0, inplace=True)\<close> replaces it by 0, as the
  comment above that line says (the in-place update of the column reaches the frame in
  pandas without copy-on-write).
\<close>

definition agg_mean :: "real list \<Rightarrow> real" where
  "agg_mean xs = sum_list xs / real (length xs)"

definition agg_std :: "real list \<Rightarrow> real option" where
  "agg_std xs =
     (if length xs < 2 then None
      else Some (sqrt (sum_list (map (\<lambda>x. (x - agg_mean xs)\<^sup>2) xs) / real (length xs - 1))))"

definition district_key :: "feature_row \<Rightarrow> (string \<times> string) option" where
  "district_key r = Some (state r, district r)"

record district_agg_row =
  dr_state :: string
  dr_district :: string
  avg_bio_completion :: real
  avg_demo_completion :: real
  avg_bio_gap :: real
  bio_gap_volatility :: real
  dr_youth_ratio_enrol :: real
  dr_youth_ratio_bio :: real
  total_enrolments :: real

definition district_agg :: "feature_row list \<Rightarrow> district_agg_row list" where
  "district_agg df =
     map (\<lambda>k. let g = group_rows district_key df k in
            \<lparr> dr_state = fst k, dr_district = snd k,
              avg_bio_completion = agg_mean (map bio_completion_rate g),
              avg_demo_completion = agg_mean (map demo_completion_rate g),
              avg_bio_gap = agg_mean (map bio_enrol_gap g),
              bio_gap_volatility = fillna0 (agg_std (map bio_enrol_gap g)),
              dr_youth_ratio_enrol = agg_mean (map youth_ratio_enrol g),
              dr_youth_ratio_bio = agg_mean (map youth_ratio_bio g),
              total_enrolments = sum_list (map enrol_count g) \<rparr>)
         (group_keys district_key df)"

text \<open>The column operations used by the score.\<close>

definition clip :: "real \<Rightarrow> real \<Rightarrow> real \<Rightarrow> real" where
  "clip lo hi x = min hi (max lo x)"

definition series_max :: "real list \<Rightarrow> real option" where
  "series_max xs = (case xs of [] \<Rightarrow> None | x # ys \<Rightarrow> Some (fold max ys x))"

text \<open>
  \<open>rank(pct=True)\<close>: the rank of a value is the average of the positions its ties take in
  the ascending order, divided by the number of rows.
\<close>

definition rank_pct :: "real list \<Rightarrow> real \<Rightarrow> real" where
  "rank_pct xs x =
     (real (length (filter (\<lambda>y. y < x) xs))
        + (real (length (filter (\<lambda>y. y = x) xs)) + 1) / 2) / real (length xs)"

text \<open>\<open>round(2)\<close>: scale by 100, round to the nearest integer with ties to even, scale back.\<close>

definition rint :: "real \<Rightarrow> int" where
  "rint y =
     (let f = \<lfloor>y\<rfloor>; d = y - of_int f in
      if d < 1 / 2 then f else if d > 1 / 2 then f + 1 else if even f then f else f + 1)"

definition round2 :: "real \<Rightarrow> real" where
  "round2 x = of_int (rint (x * 100)) / 100"

datatype category = Low | Medium | High | Critical

text \<open>
  \<open>pd.cut(x, bins=[0, 30, 50, 70, 100], labels=[...])\<close>: intervals open on the left and closed
  on the right; a value in none of them gets no label.
\<close>

definition cut_category :: "real \<Rightarrow> category option" where
  "cut_category c =
     (if 0 < c \<and> c \<le> 30 then Some Low
      else if 30 < c \<and> c \<le> 50 then Some Medium
      else if 50 < c \<and> c \<le> 70 then Some High
      else if 70 < c \<and> c \<le> 100 then Some Critical
      else None)"

record district_risk = district_agg_row +
  gap_risk :: real
  migration_risk :: real
  volatility_risk :: real
  volume_rank :: real
  volume_pressure_risk :: real
  CERS :: real
  risk_category :: "category option"

definition volatility_of :: "real option \<Rightarrow> real \<Rightarrow> real" where
  "volatility_of max_volatility v =
     (if (case max_volatility of None \<Rightarrow> False | Some m \<Rightarrow> m > 0)
      then v / the max_volatility * 100 else 0)"

definition score_row :: "district_agg_row list \<Rightarrow> district_agg_row \<Rightarrow> district_risk" where
  "score_row tbl r =
     (let gap = 100 - clip 0 100 (avg_bio_completion r);
          mig = clip 0 100 (\<bar>dr_youth_ratio_enrol r - dr_youth_ratio_bio r\<bar> * 500);
          max_volatility = series_max (map bio_gap_volatility tbl);
          vol = volatility_of max_volatility (bio_gap_volatility r);
          rnk = rank_pct (map total_enrolments tbl) (total_enrolments r);
          vpr = clip 0 100 (rnk * (100 - avg_bio_completion r));
          cers = round2 (gap * 0.40 + mig * 0.25 + vol * 0.20 + vpr * 0.15) in
      \<lparr> dr_state = dr_state r, dr_district = dr_district r,
        avg_bio_completion = avg_bio_completion r,
        avg_demo_completion = avg_demo_completion r,
        avg_bio_gap = avg_bio_gap r,
        bio_gap_volatility = bio_gap_volatility r,
        dr_youth_ratio_enrol = dr_youth_ratio_enrol r,
        dr_youth_ratio_bio = dr_youth_ratio_bio r,
        total_enrolments = total_enrolments r,
        gap_risk = gap, migration_risk = mig, volatility_risk = vol,
        volume_rank = rnk, volume_pressure_risk = vpr,
        CERS = cers, risk_category = cut_category cers \<rparr>)"

text \<open>
  \<open>sort_values('CERS', ascending=False)\<close> is an insertion sort on the negated score here;
  pandas does not fix the order of rows with equal scores, this model keeps their order.
\<close>

definition sort_values_CERS_desc :: "district_risk list \<Rightarrow> district_risk list" where
  "sort_values_CERS_desc tbl = sort_key (\<lambda>r. - CERS r) tbl"

definition calculate_exclusion_risk_score :: "feature_row list \<Rightarrow> district_risk list" where
  "calculate_exclusion_risk_score df =
     (let tbl = district_agg df in sort_values_CERS_desc (map (score_row tbl) tbl))"

text \<open>The summary stored under \<open>insights['cers_summary']\<close>.\<close>

record cers_summary =
  total_districts :: nat
  critical_risk_districts :: nat
  high_risk_districts :: nat
  medium_risk_districts :: nat
  low_risk_districts :: nat
  avg_cers :: "real option"
  top_10_districts :: "(string \<times> string \<times> real \<times> category option \<times> real) list"

definition count_category :: "category \<Rightarrow> district_risk list \<Rightarrow> nat" where
  "count_category c tbl = length (filter (\<lambda>r. risk_category r = Some c) tbl)"

definition risk_summary :: "district_risk list \<Rightarrow> cers_summary" where
  "risk_summary tbl =
     \<lparr> total_districts = length tbl,
       critical_risk_districts = count_category Critical tbl,
       high_risk_districts = count_category High tbl,
       medium_risk_districts = count_category Medium tbl,
       low_risk_districts = count_category Low tbl,
       avg_cers = (if tbl = [] then None else Some (agg_mean (map CERS tbl))),
       top_10_districts =
         map (\<lambda>r. (dr_state r, dr_district r, CERS r, risk_category r, total_enrolments r))
             (take 10 tbl) \<rparr>"

subsection \<open>The analyzer object and \<open>run_full_analysis\<close>\<close>

text \<open>
  A method of \<open>KillerMoveAnalyzer\<close> is a function from the object's state to an error or the
  new state. The errors are the exceptions the methods raise on state that is not there:
  \<open>pd.concat\<close> of no frames is a \<open>ValueError\<close>, a method called on a field that is still
  \<open>None\<close> is an \<open>AttributeError\<close>, \<open>self.insights[k]\<close> for an absent \<open>k\<close> is a \<open>KeyError\<close>.
  The input is the rows of well-formed CSV files; what pandas or plotly raise on a file
  that cannot be read, or on a missing column, is outside the model.
\<close>

datatype error = ValueError | AttributeError | KeyError string

datatype stage =
    LoadAllDatasets
  | CreateIntegratedDataset
  | DiscoverHiddenPattern
  | CalculateExclusionRiskScore
  | ProposeInterventionFramework
  | QuantifyEconomicImpact
  | GenerateVisualizations
  | GenerateExecutiveReport

text \<open>
  The values of the \<open>insights\<close> dictionary. The hidden-pattern statistics, the interventions
  and the economic figures are computed from the combined frame and the risk table by
  arithmetic that no later score depends on; only their presence in the dictionary is kept.
\<close>

datatype insight =
    HiddenPattern
  | CersDistricts "district_risk list"
  | CersSummary cers_summary
  | Interventions
  | EconomicImpact

text \<open>
  The Markdown report is a fixed template with interpolated values. It is modelled by the
  values interpolated from the clock and from \<open>insights['cers_summary']\<close>.
\<close>

record report =
  rp_date :: string
  rp_dataset_coverage :: nat
  rp_critical :: nat
  rp_high :: nat
  rp_avg_cers :: "real option"
  rp_top_10 :: "(string \<times> string \<times> real \<times> category option) list"

record datetime =
  dt_year :: nat
  dt_month :: nat
  dt_day :: nat
  dt_hour :: nat
  dt_minute :: nat
  dt_second :: nat

text \<open>The CSV files that the three \<open>glob\<close> patterns find, one list of rows per file.\<close>

record workspace =
  enrol_files :: "enrol_rec list list"
  demo_files :: "demo_rec list list"
  bio_files :: "bio_rec list list"

text \<open>
  The object's fields, and two fields that record what a run does outside the object:
  \<open>calls\<close>, the methods entered so far in order, and \<open>written\<close>, the files written so far.
\<close>

record analyzer =
  workspace_path :: string
  enrolment_data :: "enrol_rec list option"
  demographic_data :: "demo_rec list option"
  biometric_data :: "bio_rec list option"
  combined_data :: "feature_row list option"
  insights :: "string \<rightharpoonup> insight"
  calls :: "stage list"
  written :: "string list"
  report_md :: "report option"

definition init :: "string \<Rightarrow> analyzer" where
  "init path =
     \<lparr> workspace_path = path, enrolment_data = None, demographic_data = None,
       biometric_data = None, combined_data = None, insights = Map.empty,
       calls = [], written = [], report_md = None \<rparr>"

definition enter :: "stage \<Rightarrow> analyzer \<Rightarrow> analyzer" where
  "enter s a = a\<lparr>calls := calls a @ [s]\<rparr>"

definition bind_result :: "error + 'a \<Rightarrow> ('a \<Rightarrow> error + 'b) \<Rightarrow> error + 'b" where
  "bind_result m f = (case m of Inl e \<Rightarrow> Inl e | Inr x \<Rightarrow> f x)"

definition load_all_datasets :: "workspace \<Rightarrow> analyzer \<Rightarrow> error + analyzer" where
  "load_all_datasets w a0 =
     (let a = enter LoadAllDatasets a0 in
      if enrol_files w = [] then Inl ValueError
      else if demo_files w = [] then Inl ValueError
      else if bio_files w = [] then Inl ValueError
      else Inr (a\<lparr> enrolment_data := Some (concat (enrol_files w)),
                   demographic_data := Some (concat (demo_files w)),
                   biometric_data := Some (concat (bio_files w)) \<rparr>))"

definition create_integrated_dataset_stage :: "analyzer \<Rightarrow> error + analyzer" where
  "create_integrated_dataset_stage a0 =
     (let a = enter CreateIntegratedDataset a0 in
      case enrolment_data a of None \<Rightarrow> Inl AttributeError
      | Some es \<Rightarrow> (case demographic_data a of None \<Rightarrow> Inl AttributeError
        | Some ds \<Rightarrow> (case biometric_data a of None \<Rightarrow> Inl AttributeError
          | Some bs \<Rightarrow> Inr (a\<lparr>combined_data := Some (create_integrated_dataset es ds bs)\<rparr>))))"

definition discover_hidden_pattern :: "analyzer \<Rightarrow> error + analyzer" where
  "discover_hidden_pattern a0 =
     (let a = enter DiscoverHiddenPattern a0 in
      case combined_data a of None \<Rightarrow> Inl AttributeError
      | Some df \<Rightarrow> Inr (a\<lparr>insights := (insights a)(''hidden_pattern'' \<mapsto> HiddenPattern)\<rparr>))"

definition calculate_exclusion_risk_score_stage ::
  "analyzer \<Rightarrow> error + analyzer \<times> district_risk list" where
  "calculate_exclusion_risk_score_stage a0 =
     (let a = enter CalculateExclusionRiskScore a0 in
      case combined_data a of None \<Rightarrow> Inl AttributeError
      | Some df \<Rightarrow>
          (let district_risk = calculate_exclusion_risk_score df in
           Inr (a\<lparr>insights := (insights a)
                     (''cers_districts'' \<mapsto> CersDistricts district_risk,
                      ''cers_summary'' \<mapsto> CersSummary (risk_summary district_risk))\<rparr>,
                district_risk)))"

definition propose_intervention_framework ::
  "analyzer \<times> district_risk list \<Rightarrow> error + analyzer" where
  "propose_intervention_framework p =
     (let a = enter ProposeInterventionFramework (fst p) in
      case combined_data a of None \<Rightarrow> Inl AttributeError
      | Some df \<Rightarrow> Inr (a\<lparr>insights := (insights a)(''interventions'' \<mapsto> Interventions)\<rparr>))"

definition quantify_economic_impact :: "analyzer \<Rightarrow> error + analyzer" where
  "quantify_economic_impact a0 =
     (let a = enter QuantifyEconomicImpact a0 in
      Inr (a\<lparr>insights := (insights a)(''economic_impact'' \<mapsto> EconomicImpact)\<rparr>))"

definition generate_visualizations :: "analyzer \<Rightarrow> error + analyzer" where
  "generate_visualizations a0 =
     (let a = enter GenerateVisualizations a0 in
      case insights a ''cers_districts'' of None \<Rightarrow> Inl (KeyError ''cers_districts'')
      | Some cers_data \<Rightarrow> (case insights a ''economic_impact'' of
          None \<Rightarrow> Inl (KeyError ''economic_impact'')
        | Some impact \<Rightarrow> (case combined_data a of None \<Rightarrow> Inl AttributeError
          | Some df \<Rightarrow>
              Inr (a\<lparr>written := written a @
                     [''cers_risk_map.html'', ''top_risk_districts.html'',
                      ''economic_impact.html'', ''seasonal_patterns.html'']\<rparr>))))"

text \<open>\<open>strftime('%B %d, %Y')\<close> on a date whose year has four digits.\<close>

definition month_names :: "string list" where
  "month_names =
     [''January'', ''February'', ''March'', ''April'', ''May'', ''June'', ''July'',
      ''August'', ''September'', ''October'', ''November'', ''December'']"

definition digit :: "nat \<Rightarrow> char" where
  "digit d = ''0123456789'' ! (d mod 10)"

definition strftime_B_d_Y :: "datetime \<Rightarrow> string" where
  "strftime_B_d_Y t =
     month_names ! (dt_month t - 1) @ '' ''
       @ [digit (dt_day t div 10), digit (dt_day t)] @ '', ''
       @ [digit (dt_year t div 1000), digit (dt_year t div 100),
          digit (dt_year t div 10), digit (dt_year t)]"

definition render_report :: "datetime \<Rightarrow> cers_summary \<Rightarrow> report" where
  "render_report now s =
     \<lparr> rp_date = strftime_B_d_Y now,
       rp_dataset_coverage = total_districts s,
       rp_critical = critical_risk_districts s,
       rp_high = high_risk_districts s,
       rp_avg_cers = avg_cers s,
       rp_top_10 = map (\<lambda>(st, di, c, cat, n). (di, st, c, cat)) (top_10_districts s) \<rparr>"

definition generate_executive_report :: "datetime \<Rightarrow> analyzer \<Rightarrow> error + analyzer" where
  "generate_executive_report now a0 =
     (let a = enter GenerateExecutiveReport a0 in
      case insights a ''cers_summary'' of
        Some (CersSummary s) \<Rightarrow>
          (case insights a ''hidden_pattern'' of None \<Rightarrow> Inl (KeyError ''hidden_pattern'')
           | Some hp \<Rightarrow> (case insights a ''interventions'' of
               None \<Rightarrow> Inl (KeyError ''interventions'')
             | Some iv \<Rightarrow> (case insights a ''economic_impact'' of
                 None \<Rightarrow> Inl (KeyError ''economic_impact'')
               | Some ei \<Rightarrow>
                   Inr (a\<lparr> report_md := Some (render_report now s),
                          written := written a @
                            [''strategic_analysis_REPORT.md'',
                             ''strategic_analysis_insights.json''] \<rparr>))))
      | _ \<Rightarrow> Inl (KeyError ''cers_summary''))"

definition run_full_analysis :: "workspace \<Rightarrow> datetime \<Rightarrow> analyzer \<Rightarrow> error + analyzer" where
  "run_full_analysis w now a =
     bind_result (load_all_datasets w a) (\<lambda>a.
     bind_result (create_integrated_dataset_stage a) (\<lambda>a.
     bind_result (discover_hidden_pattern a) (\<lambda>a.
     bind_result (calculate_exclusion_risk_score_stage a) (\<lambda>p.
     bind_result (propose_intervention_framework p) (\<lambda>a.
     bind_result (quantify_economic_impact a) (\<lambda>a.
     bind_result (generate_visualizations a) (\<lambda>a.
     generate_executive_report now a)))))))"

text \<open>
  The key columns of a row of the combined frame, and the row that the merge, \<open>fillna\<close> and
  the feature engineering build for a key from the three aggregates seen as lookup tables.
\<close>

definition row_key :: "'a merged_row_scheme \<Rightarrow> key" where
  "row_key r = (date r, state r, district r)"

definition nan_row ::
  "(key \<rightharpoonup> enrol_agg_row) \<Rightarrow> (key \<rightharpoonup> demo_agg_row) \<Rightarrow> (key \<rightharpoonup> bio_agg_row) \<Rightarrow> key \<Rightarrow> merged_nan" where
  "nan_row e d b k =
     \<lparr> n_date = fst k, n_state = fst (snd k), n_district = snd (snd k),
       n_age_0_5 = map_option ea_age_0_5 (e k),
       n_age_5_17 = map_option ea_age_5_17 (e k),
       n_age_18_greater = map_option ea_age_18_greater (e k),
       n_enrol_count = map_option ea_enrol_count (e k),
       n_demo_age_5_17 = map_option da_demo_age_5_17 (d k),
       n_demo_age_17 = map_option da_demo_age_17 (d k),
       n_demo_count = map_option da_demo_count (d k),
       n_bio_age_5_17 = map_option ba_bio_age_5_17 (b k),
       n_bio_age_17 = map_option ba_bio_age_17 (b k),
       n_bio_count = map_option ba_bio_count (b k) \<rparr>"

definition all_keys ::
  "(key \<times> 'a) list \<Rightarrow> (key \<times> 'b) list \<Rightarrow> (key \<times> 'c) list \<Rightarrow> key list" where
  "all_keys ea da ba =
     sort (remdups (sort (remdups (map fst ea @ map fst da)) @ map fst ba))"

definition built_row ::
  "(key \<rightharpoonup> enrol_agg_row) \<Rightarrow> (key \<rightharpoonup> demo_agg_row) \<Rightarrow> (key \<rightharpoonup> bio_agg_row) \<Rightarrow> key \<Rightarrow> feature_row" where
  "built_row e d b k = engineer_row (fillna_row (nan_row e d b k))"

text \<open>The key columns of a district row.\<close>

definition dkey :: "'a district_agg_row_scheme \<Rightarrow> string \<times> string" where
  "dkey r = (dr_state r, dr_district r)"






subsection \<open>Example data\<close>

text \<open>
  A small workspace used to run the definitions: the district North of Goa has enrolments on
  three days and one demographic and one biometric update on the first; the district South
  has a biometric update only.
\<close>

definition ex_enrol :: "enrol_rec list" where
  "ex_enrol =
     [\<lparr>e_date = Some (2025, 3, 1), e_state = Some ''Goa'', e_district = Some ''North'',
       e_pincode = Some ''403001'', e_age_0_5 = Some 1, e_age_5_17 = Some 2,
       e_age_18_greater = Some 1\<rparr>,
      \<lparr>e_date = Some (2025, 3, 2), e_state = Some ''Goa'', e_district = Some ''North'',
       e_pincode = Some ''403001'', e_age_0_5 = Some 0, e_age_5_17 = Some 1,
       e_age_18_greater = Some 1\<rparr>,
      \<lparr>e_date = Some (2025, 3, 3), e_state = Some ''Goa'', e_district = Some ''North'',
       e_pincode = Some ''403001'', e_age_0_5 = Some 2, e_age_5_17 = Some 0,
       e_age_18_greater = Some 0\<rparr>,
      \<lparr>e_date = Some (2025, 3, 3), e_state = Some ''Goa'', e_district = Some ''North'',
       e_pincode = Some ''403002'', e_age_0_5 = Some 0, e_age_5_17 = Some 0,
       e_age_18_greater = Some 1\<rparr>]"

definition ex_demo :: "demo_rec list" where
  "ex_demo =
     [\<lparr>d_date = Some (2025, 3, 1), d_state = Some ''Goa'', d_district = Some ''North'',
       d_pincode = Some ''403001'', d_demo_age_5_17 = Some 1, d_demo_age_17 = Some 1\<rparr>]"

definition ex_bio :: "bio_rec list" where
  "ex_bio =
     [\<lparr>b_date = Some (2025, 3, 1), b_state = Some ''Goa'', b_district = Some ''North'',
       b_pincode = Some ''403001'', b_bio_age_5_17 = Some 1, b_bio_age_17 = Some 3\<rparr>,
      \<lparr>b_date = Some (2025, 3, 2), b_state = Some ''Goa'', b_district = Some ''South'',
       b_pincode = Some ''403101'', b_bio_age_5_17 = Some 1, b_bio_age_17 = Some 3\<rparr>]"

definition ex_frame :: "feature_row list" where
  "ex_frame = create_integrated_dataset ex_enrol ex_demo ex_bio"

text \<open>One district whose single enrolment has its biometric update on the same day.\<close>

definition ex_done_enrol :: "enrol_rec list" where
  "ex_done_enrol =
     [\<lparr>e_date = Some (2025, 3, 1), e_state = Some ''Goa'', e_district = Some ''North'',
       e_pincode = Some ''403001'', e_age_0_5 = Some 0, e_age_5_17 = Some 0,
       e_age_18_greater = Some 1\<rparr>]"

definition ex_done_bio :: "bio_rec list" where
  "ex_done_bio =
     [\<lparr>b_date = Some (2025, 3, 1), b_state = Some ''Goa'', b_district = Some ''North'',
       b_pincode = Some ''403001'', b_bio_age_5_17 = Some 0, b_bio_age_17 = Some 1\<rparr>]"

definition ex_done_frame :: "feature_row list" where
  "ex_done_frame = create_integrated_dataset ex_done_enrol [] ex_done_bio"

text \<open>
  Data for the join: two enrolment rows of one key with a missing age cell and a missing
  pincode, a third enrolment row without a date, two demographic rows of the same key, and
  two biometric rows of another key.
\<close>

definition ex_join_enrol :: "enrol_rec list" where
  "ex_join_enrol =
     [\<lparr>e_date = Some (2025, 4, 1), e_state = Some ''Kerala'', e_district = Some ''Idukki'',
       e_pincode = Some ''685501'', e_age_0_5 = Some 1, e_age_5_17 = None,
       e_age_18_greater = Some 2\<rparr>,
      \<lparr>e_date = Some (2025, 4, 1), e_state = Some ''Kerala'', e_district = Some ''Idukki'',
       e_pincode = None, e_age_0_5 = Some 3, e_age_5_17 = Some 4,
       e_age_18_greater = None\<rparr>,
      \<lparr>e_date = None, e_state = Some ''Kerala'', e_district = Some ''Idukki'',
       e_pincode = Some ''685501'', e_age_0_5 = Some 9, e_age_5_17 = Some 9,
       e_age_18_greater = Some 9\<rparr>]"

definition ex_join_demo :: "demo_rec list" where
  "ex_join_demo =
     [\<lparr>d_date = Some (2025, 4, 1), d_state = Some ''Kerala'', d_district = Some ''Idukki'',
       d_pincode = Some ''685501'', d_demo_age_5_17 = Some 2, d_demo_age_17 = Some 3\<rparr>,
      \<lparr>d_date = Some (2025, 4, 1), d_state = Some ''Kerala'', d_district = Some ''Idukki'',
       d_pincode = Some ''685502'', d_demo_age_5_17 = Some 5, d_demo_age_17 = Some 7\<rparr>]"

definition ex_join_bio :: "bio_rec list" where
  "ex_join_bio =
     [\<lparr>b_date = Some (2025, 4, 2), b_state = Some ''Kerala'', b_district = Some ''Wayanad'',
       b_pincode = Some ''673121'', b_bio_age_5_17 = Some 1, b_bio_age_17 = Some 3\<rparr>,
      \<lparr>b_date = Some (2025, 4, 2), b_state = Some ''Kerala'', b_district = Some ''Wayanad'',
       b_pincode = Some ''673122'', b_bio_age_5_17 = Some 2, b_bio_age_17 = Some 4\<rparr>]"

definition ex_workspace :: workspace where
  "ex_workspace = \<lparr>enrol_files = [ex_enrol], demo_files = [ex_demo], bio_files = [ex_bio]\<rparr>"



definition ex_new_year :: datetime where
  "ex_new_year =
     \<lparr>dt_year = 2026, dt_month = 1, dt_day = 1, dt_hour = 9, dt_minute = 0, dt_second = 0\<rparr>"



section \<open>Properties\<close>

subsection \<open>Running the definitions on the example data\<close>

lemmas frame_defs = enrol_agg_def demo_agg_def bio_agg_def group_keys_def group_rows_def
  agg_sum_def agg_count_def enrol_key_def demo_key_def bio_key_def mk_key_def outer_merge_def
  merge_at_def rows_of_def merge_all_def fillna_row_def fillna0_def combined_of_def
  engineer_row_def engineer_features_def create_integrated_dataset_def List.map_filter_def

lemmas score_defs = group_keys_def group_rows_def fillna0_def List.map_filter_def
  agg_mean_def agg_std_def district_key_def district_agg_def clip_def series_max_def rank_pct_def rint_def round2_def cut_category_def volatility_of_def
  score_row_def sort_values_CERS_desc_def calculate_exclusion_risk_score_def

lemma ex_frame_rows:
  "ex_frame =
    [\<lparr>date = (2025, 3, 1), state = ''Goa'', district = ''North'', age_0_5 = 1,
      age_5_17 = 2, age_18_greater = 1, enrol_count = 1, demo_age_5_17 = 1,
      demo_age_17 = 1, demo_count = 1, bio_age_5_17 = 1, bio_age_17 = 3,
      bio_count = 1, total_enrol = 4, total_demo = 2, total_bio = 4,
      demo_enrol_gap = 0, bio_enrol_gap = 0, bio_demo_gap = 0,
      demo_completion_rate = 100, bio_completion_rate = 100,
      youth_ratio_enrol = 1 / 2, youth_ratio_demo = 1 / 2, youth_ratio_bio = 1 / 4\<rparr>,
     \<lparr>date = (2025, 3, 2), state = ''Goa'', district = ''North'', age_0_5 = 0,
      age_5_17 = 1, age_18_greater = 1, enrol_count = 1, demo_age_5_17 = 0,
      demo_age_17 = 0, demo_count = 0, bio_age_5_17 = 0, bio_age_17 = 0,
      bio_count = 0, total_enrol = 2, total_demo = 0, total_bio = 0,
      demo_enrol_gap = 1, bio_enrol_gap = 1, bio_demo_gap = 0,
      demo_completion_rate = 0, bio_completion_rate = 0,
      youth_ratio_enrol = 1 / 2, youth_ratio_demo = 0, youth_ratio_bio = 0\<rparr>,
     \<lparr>date = (2025, 3, 2), state = ''Goa'', district = ''South'', age_0_5 = 0,
      age_5_17 = 0, age_18_greater = 0, enrol_count = 0, demo_age_5_17 = 0,
      demo_age_17 = 0, demo_count = 0, bio_age_5_17 = 1, bio_age_17 = 3,
      bio_count = 1, total_enrol = 0, total_demo = 0, total_bio = 4,
      demo_enrol_gap = 0, bio_enrol_gap = - 1, bio_demo_gap = - 1,
      demo_completion_rate = 100, bio_completion_rate = 100,
      youth_ratio_enrol = 0, youth_ratio_demo = 0, youth_ratio_bio = 1 / 4\<rparr>,
     \<lparr>date = (2025, 3, 3), state = ''Goa'', district = ''North'', age_0_5 = 2,
      age_5_17 = 0, age_18_greater = 1, enrol_count = 2, demo_age_5_17 = 0,
      demo_age_17 = 0, demo_count = 0, bio_age_5_17 = 0, bio_age_17 = 0,
      bio_count = 0, total_enrol = 3, total_demo = 0, total_bio = 0,
      demo_enrol_gap = 2, bio_enrol_gap = 2, bio_demo_gap = 0,
      demo_completion_rate = 0, bio_completion_rate = 0,
      youth_ratio_enrol = 0, youth_ratio_demo = 0, youth_ratio_bio = 0\<rparr>]"
  by (simp add: ex_frame_def frame_defs ex_enrol_def ex_demo_def ex_bio_def)

lemma ex_table_rows:
  "calculate_exclusion_risk_score ex_frame =
    [\<lparr>dr_state = ''Goa'', dr_district = ''North'',
      avg_bio_completion = 100 / 3, avg_demo_completion = 100 / 3,
      avg_bio_gap = 1, bio_gap_volatility = 1,
      dr_youth_ratio_enrol = 1 / 3, dr_youth_ratio_bio = 1 / 12,
      total_enrolments = 4, gap_risk = 200 / 3, migration_risk = 100,
      volatility_risk = 100, volume_rank = 1,
      volume_pressure_risk = 200 / 3, CERS = 81.67,
      risk_category = Some Critical\<rparr>,
     \<lparr>dr_state = ''Goa'', dr_district = ''South'', avg_bio_completion = 100,
      avg_demo_completion = 100, avg_bio_gap = - 1,
      bio_gap_volatility = 0, dr_youth_ratio_enrol = 0,
      dr_youth_ratio_bio = 1 / 4, total_enrolments = 0, gap_risk = 0,
      migration_risk = 100, volatility_risk = 0, volume_rank = 1 / 2,
      volume_pressure_risk = 0, CERS = 25, risk_category = Some Low\<rparr>]"
  by (simp add: ex_frame_rows score_defs Let_def)

lemma ex_done_table_rows:
  "calculate_exclusion_risk_score ex_done_frame =
    [\<lparr>dr_state = ''Goa'', dr_district = ''North'', avg_bio_completion = 100,
      avg_demo_completion = 0, avg_bio_gap = 0, bio_gap_volatility = 0,
      dr_youth_ratio_enrol = 0, dr_youth_ratio_bio = 0, total_enrolments = 1,
      gap_risk = 0, migration_risk = 0, volatility_risk = 0, volume_rank = 1,
      volume_pressure_risk = 0, CERS = 0, risk_category = None\<rparr>]"
  by (simp add: ex_done_frame_def frame_defs ex_done_enrol_def ex_done_bio_def score_defs Let_def)

subsection \<open>The rows of the risk table\<close>

lemma score_rowE:
  assumes "r \<in> set (calculate_exclusion_risk_score df)"
  obtains a where "a \<in> set (district_agg df)" and "r = score_row (district_agg df) a"
  using assms by (auto simp: calculate_exclusion_risk_score_def sort_values_CERS_desc_def Let_def)

lemma clip_bounds: "lo \<le> hi \<Longrightarrow> lo \<le> clip lo hi x \<and> clip lo hi x \<le> hi"
  by (simp add: clip_def)

lemma agg_std_nonneg: "0 \<le> fillna0 (agg_std xs)"
proof -
  have "0 \<le> (\<Sum>x\<leftarrow>xs. (x - agg_mean xs)\<^sup>2)"
    by (rule sum_list_nonneg) auto
  then show ?thesis
    by (simp add: fillna0_def agg_std_def)
qed

lemma district_agg_volatility_nonneg:
  "a \<in> set (district_agg df) \<Longrightarrow> 0 \<le> bio_gap_volatility a"
  by (auto simp: district_agg_def Let_def agg_std_nonneg)

lemma fold_max_ge_init: "(x::real) \<le> fold max ys x"
proof (induction ys arbitrary: x)
  case Nil
  then show ?case by simp
next
  case (Cons y ys)
  have "x \<le> max y x" by simp
  also have "\<dots> \<le> fold max ys (max y x)" by (rule Cons.IH)
  finally show ?case by simp
qed

lemma fold_max_ge_elem: "v \<in> set ys \<Longrightarrow> (v::real) \<le> fold max ys x"
proof (induction ys arbitrary: x)
  case Nil
  then show ?case by simp
next
  case (Cons y ys)
  show ?case
  proof (cases "v = y")
    case True
    have "v \<le> max y x" using True by simp
    also have "\<dots> \<le> fold max ys (max y x)" by (rule fold_max_ge_init)
    finally show ?thesis by simp
  next
    case False
    with Cons.prems have "v \<in> set ys" by simp
    then show ?thesis using Cons.IH by simp
  qed
qed

lemma series_max_upper:
  "v \<in> set xs \<Longrightarrow> \<exists>m. series_max xs = Some m \<and> v \<le> m"
  by (cases xs) (auto simp: series_max_def fold_max_ge_init fold_max_ge_elem)

lemma volatility_of_bounds:
  assumes "v \<in> set xs" and "0 \<le> v"
  shows "0 \<le> volatility_of (series_max xs) v \<and> volatility_of (series_max xs) v \<le> 100"
proof -
  obtain m where m: "series_max xs = Some m" "v \<le> m"
    using series_max_upper[OF assms(1)] by blast
  show ?thesis
  proof (cases "0 < m")
    case True
    then have "v / m * 100 \<le> 100" and "0 \<le> v / m * 100"
      using m(2) assms(2) by (simp_all add: field_simps)
    then show ?thesis using m(1) True by (simp add: volatility_of_def del: times_divide_eq_left)
  next
    case False
    then show ?thesis using m(1) by (simp add: volatility_of_def)
  qed
qed

lemma rint_bounds:
  assumes "0 \<le> y" and "y \<le> 10000"
  shows "0 \<le> rint y \<and> rint y \<le> 10000"
proof -
  have f0: "0 \<le> \<lfloor>y\<rfloor>" using assms(1) by simp
  have f1: "\<lfloor>y\<rfloor> \<le> 10000" using assms(2) by (simp add: floor_le_iff) 
  show ?thesis
  proof (cases "y = 10000")
    case True
    then show ?thesis by (simp add: rint_def Let_def)
  next
    case False
    then have "y < 10000" using assms(2) by simp
    then have "\<lfloor>y\<rfloor> < 10000" by (simp add: floor_less_iff)
    then show ?thesis using f0 by (auto simp: rint_def Let_def)
  qed
qed

lemma round2_bounds:
  assumes "0 \<le> x" and "x \<le> 100"
  shows "0 \<le> round2 x \<and> round2 x \<le> 100"
proof -
  have "0 \<le> rint (x * 100) \<and> rint (x * 100) \<le> 10000"
    using assms by (intro rint_bounds) simp_all
  then show ?thesis by (simp add: round2_def)
qed

lemma score_row_cers:
  "CERS (score_row tbl a) =
     round2 (gap_risk (score_row tbl a) * 0.40 + migration_risk (score_row tbl a) * 0.25
       + volatility_risk (score_row tbl a) * 0.20 + volume_pressure_risk (score_row tbl a) * 0.15)"
  by (simp add: score_row_def Let_def)

lemma score_row_category: "risk_category (score_row tbl a) = cut_category (CERS (score_row tbl a))"
  by (simp add: score_row_def Let_def)


lemma score_row_bounds:
  assumes a: "a \<in> set (district_agg df)" and r: "r = score_row (district_agg df) a"
  shows "0 \<le> gap_risk r \<and> gap_risk r \<le> 100
       \<and> 0 \<le> migration_risk r \<and> migration_risk r \<le> 100
       \<and> 0 \<le> volatility_risk r \<and> volatility_risk r \<le> 100
       \<and> 0 \<le> volume_pressure_risk r \<and> volume_pressure_risk r \<le> 100
       \<and> 0 \<le> CERS r \<and> CERS r \<le> 100"
proof -
  define tbl where "tbl = district_agg df"
  define gap where "gap = 100 - clip 0 100 (avg_bio_completion a)"
  define mig where "mig = clip 0 100 (\<bar>dr_youth_ratio_enrol a - dr_youth_ratio_bio a\<bar> * 500)"
  define vol where "vol = volatility_of (series_max (map bio_gap_volatility tbl)) (bio_gap_volatility a)"
  define vpr where "vpr = clip 0 100 (rank_pct (map total_enrolments tbl) (total_enrolments a) * (100 - avg_bio_completion a))"
  have gap: "0 \<le> gap \<and> gap \<le> 100"
    using clip_bounds[of 0 100 "avg_bio_completion a"] by (simp add: gap_def)
  have mig: "0 \<le> mig \<and> mig \<le> 100"
    unfolding mig_def by (rule clip_bounds) simp
  have vol: "0 \<le> vol \<and> vol \<le> 100"
    unfolding vol_def
    by (rule volatility_of_bounds) (use a in \<open>auto simp: tbl_def district_agg_volatility_nonneg\<close>)
  have vpr: "0 \<le> vpr \<and> vpr \<le> 100"
    unfolding vpr_def by (rule clip_bounds) simp
  have sum: "0 \<le> gap * 0.40 + mig * 0.25 + vol * 0.20 + vpr * 0.15"
    "gap * 0.40 + mig * 0.25 + vol * 0.20 + vpr * 0.15 \<le> 100"
    using gap mig vol vpr by simp_all
  have cers: "CERS r = round2 (gap * 0.40 + mig * 0.25 + vol * 0.20 + vpr * 0.15)"
    by (simp add: r score_row_def Let_def gap_def mig_def vol_def vpr_def tbl_def)
  have fields: "gap_risk r = gap" "migration_risk r = mig" "volatility_risk r = vol"
    "volume_pressure_risk r = vpr"
    by (simp_all add: r score_row_def Let_def gap_def mig_def vol_def vpr_def tbl_def)
  show ?thesis
    using gap mig vol vpr round2_bounds[OF sum] by (simp add: fields cers)
qed

subsection \<open>The closed form of a run\<close>

lemmas stage_defs = load_all_datasets_def create_integrated_dataset_stage_def
  discover_hidden_pattern_def calculate_exclusion_risk_score_stage_def
  propose_intervention_framework_def quantify_economic_impact_def
  generate_visualizations_def generate_executive_report_def enter_def bind_result_def

lemma run_unfold:
  "run_full_analysis w now a =
     (if enrol_files w = [] \<or> demo_files w = [] \<or> bio_files w = [] then Inl ValueError
      else
        (let df = create_integrated_dataset (concat (enrol_files w)) (concat (demo_files w))
                    (concat (bio_files w));
             tbl = calculate_exclusion_risk_score df in
         Inr (a\<lparr> enrolment_data := Some (concat (enrol_files w)),
                 demographic_data := Some (concat (demo_files w)),
                 biometric_data := Some (concat (bio_files w)),
                 combined_data := Some df,
                 insights := (insights a)
                   (''hidden_pattern'' \<mapsto> HiddenPattern,
                    ''cers_districts'' \<mapsto> CersDistricts tbl,
                    ''cers_summary'' \<mapsto> CersSummary (risk_summary tbl),
                    ''interventions'' \<mapsto> Interventions,
                    ''economic_impact'' \<mapsto> EconomicImpact),
                 calls := calls a @
                   [LoadAllDatasets, CreateIntegratedDataset, DiscoverHiddenPattern,
                    CalculateExclusionRiskScore, ProposeInterventionFramework,
                    QuantifyEconomicImpact, GenerateVisualizations, GenerateExecutiveReport],
                 written := written a @
                   [''cers_risk_map.html'', ''top_risk_districts.html'',
                    ''economic_impact.html'', ''seasonal_patterns.html'',
                    ''strategic_analysis_REPORT.md'', ''strategic_analysis_insights.json''],
                 report_md := Some (render_report now (risk_summary tbl)) \<rparr>)))"
  by (simp add: run_full_analysis_def stage_defs Let_def)

lemma run_success:
  assumes "enrol_files w \<noteq> []" and "demo_files w \<noteq> []" and "bio_files w \<noteq> []"
  obtains a' where "run_full_analysis w now a = Inr a'"
  using assms by (simp add: run_unfold Let_def)

lemma run_calls:
  assumes "run_full_analysis w now a = Inr a'"
  shows "calls a' = calls a @
     [LoadAllDatasets, CreateIntegratedDataset, DiscoverHiddenPattern,
      CalculateExclusionRiskScore, ProposeInterventionFramework,
      QuantifyEconomicImpact, GenerateVisualizations, GenerateExecutiveReport]"
  using assms by (auto simp: run_unfold Let_def split: if_splits)

lemma run_cers_districts:
  assumes "run_full_analysis w now a = Inr a'"
  shows "\<exists>df. combined_data a' = Some df
     \<and> insights a' ''cers_districts'' = Some (CersDistricts (calculate_exclusion_risk_score df))"
  using assms by (auto simp: run_unfold Let_def split: if_splits)

lemma ex_workspace_files:
  "enrol_files ex_workspace \<noteq> []" "demo_files ex_workspace \<noteq> []" "bio_files ex_workspace \<noteq> []"
  by (simp_all add: ex_workspace_def)


subsection \<open>The composite score\<close>

text \<open>
  Claim C1. On every row of the table that \<open>calculate_exclusion_risk_score\<close> returns, CERS is
  the weighted sum \<open>0.40 * gap_risk + 0.25 * migration_risk + 0.20 * volatility_risk +
  0.15 * volume_pressure_risk\<close> rounded to two decimals; and a run of \<open>run_full_analysis\<close> that
  completes has entered \<open>calculate_exclusion_risk_score\<close> exactly once, the table under
  \<open>insights['cers_districts']\<close> being the one computed from the combined frame of that run.
\<close>

theorem cers_weighted_sum_once:
  "(r \<in> set (calculate_exclusion_risk_score df) \<longrightarrow>
      CERS r = round2 (gap_risk r * 0.40 + migration_risk r * 0.25
                        + volatility_risk r * 0.20 + volume_pressure_risk r * 0.15))
   \<and> (run_full_analysis w now (init path) = Inr a \<longrightarrow>
        count_list (calls a) CalculateExclusionRiskScore = 1
        \<and> (\<exists>frame. combined_data a = Some frame
             \<and> insights a ''cers_districts''
                 = Some (CersDistricts (calculate_exclusion_risk_score frame))))"
proof (intro conjI impI)
  assume "r \<in> set (calculate_exclusion_risk_score df)"
  then obtain a where "r = score_row (district_agg df) a" by (rule score_rowE)
  then show "CERS r = round2 (gap_risk r * 0.40 + migration_risk r * 0.25
                        + volatility_risk r * 0.20 + volume_pressure_risk r * 0.15)"
    by (simp only: score_row_cers)
next
  assume run: "run_full_analysis w now (init path) = Inr a"
  show "count_list (calls a) CalculateExclusionRiskScore = 1"
    by (simp add: run_calls[OF run] init_def)
  show "\<exists>frame. combined_data a = Some frame
          \<and> insights a ''cers_districts''
              = Some (CersDistricts (calculate_exclusion_risk_score frame))"
    by (rule run_cers_districts[OF run])
qed

text \<open>The example: North scores 81.67, and the example run enters the scoring once.\<close>

theorem cers_weighted_sum_once_witness:
  "CERS (hd (calculate_exclusion_risk_score ex_frame)) = 81.67
   \<and> round2 (200 / 3 * 0.40 + 100 * 0.25 + 100 * 0.20 + 200 / 3 * 0.15) = 81.67
   \<and> (case run_full_analysis ex_workspace ex_new_year (init ''data'') of
         Inl e \<Rightarrow> False
       | Inr a \<Rightarrow> count_list (calls a) CalculateExclusionRiskScore = 1)"
proof -
  let ?r = "hd (calculate_exclusion_risk_score ex_frame)"
  have mem: "?r \<in> set (calculate_exclusion_risk_score ex_frame)"
    by (simp add: ex_table_rows)
  obtain a where run: "run_full_analysis ex_workspace ex_new_year (init ''data'') = Inr a"
    using ex_workspace_files by (rule run_success)
  from cers_weighted_sum_once[of ?r ex_frame ex_workspace ex_new_year "''data''" a] mem run
  have "CERS ?r = round2 (gap_risk ?r * 0.40 + migration_risk ?r * 0.25
                        + volatility_risk ?r * 0.20 + volume_pressure_risk ?r * 0.15)"
    and "count_list (calls a) CalculateExclusionRiskScore = 1"
    by blast+
  then show ?thesis
    by (simp add: run ex_table_rows)
qed

text \<open>
  Claim C8. On every row of the risk table the four sub-scores lie between 0 and 100, and
  so does CERS, the weights 0.40, 0.25, 0.20 and 0.15 adding up to 1.
\<close>

theorem sub_scores_and_cers_bounded:
  assumes "r \<in> set (calculate_exclusion_risk_score df)"
  shows "0 \<le> gap_risk r \<and> gap_risk r \<le> 100
       \<and> 0 \<le> migration_risk r \<and> migration_risk r \<le> 100
       \<and> 0 \<le> volatility_risk r \<and> volatility_risk r \<le> 100
       \<and> 0 \<le> volume_pressure_risk r \<and> volume_pressure_risk r \<le> 100
       \<and> 0 \<le> CERS r \<and> CERS r \<le> 100"
proof -
  from assms obtain a where "a \<in> set (district_agg df)"
    and "r = score_row (district_agg df) a" by (rule score_rowE)
  then show ?thesis by (rule score_row_bounds)
qed

text \<open>The example: the bounds hold on the row of North, whose volatility risk is 100.\<close>

theorem sub_scores_and_cers_bounded_witness:
  "hd (calculate_exclusion_risk_score ex_frame) \<in> set (calculate_exclusion_risk_score ex_frame)
   \<and> volatility_risk (hd (calculate_exclusion_risk_score ex_frame)) = 100
   \<and> 0 \<le> gap_risk (hd (calculate_exclusion_risk_score ex_frame))
   \<and> gap_risk (hd (calculate_exclusion_risk_score ex_frame)) \<le> 100
   \<and> 0 \<le> CERS (hd (calculate_exclusion_risk_score ex_frame))
   \<and> CERS (hd (calculate_exclusion_risk_score ex_frame)) \<le> 100"
proof -
  have mem: "hd (calculate_exclusion_risk_score ex_frame)
               \<in> set (calculate_exclusion_risk_score ex_frame)"
    by (simp add: ex_table_rows)
  have vol: "volatility_risk (hd (calculate_exclusion_risk_score ex_frame)) = 100"
    by (simp add: ex_table_rows)
  show ?thesis
    using mem vol sub_scores_and_cers_bounded[OF mem] by blast
qed

subsection \<open>The ranking\<close>

lemma sort_values_sorted:
  "sorted (map (\<lambda>r. - CERS r) (sort_values_CERS_desc tbl))"
  by (simp add: sort_values_CERS_desc_def)

text \<open>
  Claim C4. The table returned by \<open>calculate_exclusion_risk_score\<close> is in descending order
  of CERS: of two consecutive rows the earlier one has the greater or equal score.
\<close>

theorem ranked_by_descending_cers:
  assumes "Suc i < length (calculate_exclusion_risk_score df)"
  shows "CERS (calculate_exclusion_risk_score df ! Suc i)
           \<le> CERS (calculate_exclusion_risk_score df ! i)"
proof -
  let ?t = "calculate_exclusion_risk_score df"
  have "sorted (map (\<lambda>r. - CERS r) ?t)"
    by (simp add: calculate_exclusion_risk_score_def Let_def sort_values_sorted)
  moreover have "i \<le> Suc i" by simp
  moreover have "Suc i < length (map (\<lambda>r. - CERS r) ?t)" using assms by simp
  ultimately have "map (\<lambda>r. - CERS r) ?t ! i \<le> map (\<lambda>r. - CERS r) ?t ! Suc i"
    by (rule sorted_nth_mono)
  then show ?thesis using assms by simp
qed

text \<open>The example: North (81.67) comes before South (25).\<close>

theorem ranked_by_descending_cers_witness:
  "Suc 0 < length (calculate_exclusion_risk_score ex_frame)
   \<and> CERS (calculate_exclusion_risk_score ex_frame ! 0) = 81.67
   \<and> CERS (calculate_exclusion_risk_score ex_frame ! Suc 0) = 25
   \<and> CERS (calculate_exclusion_risk_score ex_frame ! Suc 0)
        \<le> CERS (calculate_exclusion_risk_score ex_frame ! 0)"
proof -
  have len: "Suc 0 < length (calculate_exclusion_risk_score ex_frame)"
    by (simp add: ex_table_rows)
  have vals: "CERS (calculate_exclusion_risk_score ex_frame ! 0) = 81.67"
    "CERS (calculate_exclusion_risk_score ex_frame ! Suc 0) = 25"
    by (simp_all add: ex_table_rows)
  show ?thesis
    using len vals ranked_by_descending_cers[OF len] by blast
qed

subsection \<open>The engineered features\<close>

lemma frame_rowE:
  assumes "r \<in> set (engineer_features df)"
  obtains m where "m \<in> set df" and "r = engineer_row m"
  using assms by (auto simp: engineer_features_def)

text \<open>
  Claim C7. On every row of the combined frame, \<open>total_enrol\<close> is the sum of the three age
  columns, the two gaps are \<open>enrol_count - demo_count\<close> and \<open>enrol_count - bio_count\<close>, and
  where \<open>enrol_count\<close> is positive the completion rates are \<open>100 * demo_count / enrol_count\<close>
  and \<open>100 * bio_count / enrol_count\<close>.
\<close>

theorem derived_indicators:
  assumes "r \<in> set (create_integrated_dataset es ds bs)"
  shows "total_enrol r = age_0_5 r + age_5_17 r + age_18_greater r
       \<and> demo_enrol_gap r = enrol_count r - demo_count r
       \<and> bio_enrol_gap r = enrol_count r - bio_count r
       \<and> (enrol_count r > 0 \<longrightarrow>
            demo_completion_rate r = 100 * demo_count r / enrol_count r
          \<and> bio_completion_rate r = 100 * bio_count r / enrol_count r)"
proof -
  from assms obtain m where "r = engineer_row m"
    unfolding create_integrated_dataset_def by (rule frame_rowE)
  then show ?thesis by (simp add: engineer_row_def Let_def)
qed

text \<open>The example: the row of North on 3 March 2025, with two enrolments.\<close>

theorem derived_indicators_witness:
  "ex_frame ! 3 \<in> set (create_integrated_dataset ex_enrol ex_demo ex_bio)
   \<and> enrol_count (ex_frame ! 3) = 2 \<and> enrol_count (ex_frame ! 3) > 0
   \<and> total_enrol (ex_frame ! 3) = age_0_5 (ex_frame ! 3) + age_5_17 (ex_frame ! 3)
        + age_18_greater (ex_frame ! 3)
   \<and> bio_enrol_gap (ex_frame ! 3) = enrol_count (ex_frame ! 3) - bio_count (ex_frame ! 3)
   \<and> demo_completion_rate (ex_frame ! 3)
        = 100 * demo_count (ex_frame ! 3) / enrol_count (ex_frame ! 3)"
proof -
  have mem: "ex_frame ! 3 \<in> set (create_integrated_dataset ex_enrol ex_demo ex_bio)"
    unfolding ex_frame_def[symmetric] by (simp add: ex_frame_rows)
  have cnt: "enrol_count (ex_frame ! 3) = 2" "enrol_count (ex_frame ! 3) > 0"
    by (simp_all add: ex_frame_rows)
  show ?thesis
    using mem cnt derived_indicators[OF mem] by blast
qed

text \<open>
  Claim C9. On every engineered row, a zero \<open>enrol_count\<close> gives both completion rates the
  value 100, and a zero \<open>total_enrol\<close>, \<open>total_demo\<close> or \<open>total_bio\<close> gives the corresponding
  youth ratio the value 0; \<open>engineer_features\<close> has a value on every frame.
\<close>

theorem guarded_divisions:
  assumes "r \<in> set (engineer_features df)"
  shows "(enrol_count r = 0 \<longrightarrow> demo_completion_rate r = 100 \<and> bio_completion_rate r = 100)
       \<and> (total_enrol r = 0 \<longrightarrow> youth_ratio_enrol r = 0)
       \<and> (total_demo r = 0 \<longrightarrow> youth_ratio_demo r = 0)
       \<and> (total_bio r = 0 \<longrightarrow> youth_ratio_bio r = 0)"
proof -
  from assms obtain m where "r = engineer_row m" by (rule frame_rowE)
  then show ?thesis by (simp add: engineer_row_def Let_def)
qed

text \<open>
  The example: the row of South has no enrolment and no demographic update, the row of North
  on 2 March 2025 has no biometric update.
\<close>

theorem guarded_divisions_witness:
  "ex_frame ! 2 \<in> set (engineer_features (combined_of ex_enrol ex_demo ex_bio))
   \<and> ex_frame ! 1 \<in> set (engineer_features (combined_of ex_enrol ex_demo ex_bio))
   \<and> enrol_count (ex_frame ! 2) = 0 \<and> total_enrol (ex_frame ! 2) = 0
   \<and> total_demo (ex_frame ! 2) = 0 \<and> total_bio (ex_frame ! 1) = 0
   \<and> demo_completion_rate (ex_frame ! 2) = 100 \<and> bio_completion_rate (ex_frame ! 2) = 100
   \<and> youth_ratio_enrol (ex_frame ! 2) = 0 \<and> youth_ratio_demo (ex_frame ! 2) = 0
   \<and> youth_ratio_bio (ex_frame ! 1) = 0"
proof -
  have frame: "engineer_features (combined_of ex_enrol ex_demo ex_bio) = ex_frame"
    by (simp add: ex_frame_def create_integrated_dataset_def)
  have mem2: "ex_frame ! 2 \<in> set (engineer_features (combined_of ex_enrol ex_demo ex_bio))"
    unfolding frame by (simp add: ex_frame_rows)
  have mem1: "ex_frame ! 1 \<in> set (engineer_features (combined_of ex_enrol ex_demo ex_bio))"
    unfolding frame by (simp add: ex_frame_rows)
  have zeros: "enrol_count (ex_frame ! 2) = 0" "total_enrol (ex_frame ! 2) = 0"
    "total_demo (ex_frame ! 2) = 0" "total_bio (ex_frame ! 1) = 0"
    by (simp_all add: ex_frame_rows)
  show ?thesis
    using mem1 mem2 zeros guarded_divisions[OF mem2] guarded_divisions[OF mem1] by blast
qed

subsection \<open>The risk categories\<close>

lemma ex_done_summary:
  "risk_summary (calculate_exclusion_risk_score ex_done_frame) =
     \<lparr>total_districts = 1, critical_risk_districts = 0, high_risk_districts = 0,
      medium_risk_districts = 0, low_risk_districts = 0, avg_cers = Some 0,
      top_10_districts = [(''Goa'', ''North'', 0, None, 1)]\<rparr>"
  by (simp add: ex_done_table_rows risk_summary_def count_category_def agg_mean_def)

text \<open>
  Claim C10. A district whose CERS lies in (0, 30] is labelled Low, in (30, 50] Medium, in
  (50, 70] High and in (70, 100] Critical, and a district whose CERS is exactly 0 gets no
  label; so the four category counts of the summary can add up to fewer than
  \<open>total_districts\<close>.
\<close>

theorem risk_categorization:
  "(r \<in> set (calculate_exclusion_risk_score df) \<longrightarrow>
       (risk_category r = Some Low \<longleftrightarrow> 0 < CERS r \<and> CERS r \<le> 30)
     \<and> (risk_category r = Some Medium \<longleftrightarrow> 30 < CERS r \<and> CERS r \<le> 50)
     \<and> (risk_category r = Some High \<longleftrightarrow> 50 < CERS r \<and> CERS r \<le> 70)
     \<and> (risk_category r = Some Critical \<longleftrightarrow> 70 < CERS r \<and> CERS r \<le> 100)
     \<and> (risk_category r = None \<longleftrightarrow> CERS r = 0))
   \<and> (\<exists>frame. critical_risk_districts (risk_summary (calculate_exclusion_risk_score frame))
          + high_risk_districts (risk_summary (calculate_exclusion_risk_score frame))
          + medium_risk_districts (risk_summary (calculate_exclusion_risk_score frame))
          + low_risk_districts (risk_summary (calculate_exclusion_risk_score frame))
          < total_districts (risk_summary (calculate_exclusion_risk_score frame)))"
proof (intro conjI impI)
  assume mem: "r \<in> set (calculate_exclusion_risk_score df)"
  then obtain a where a: "a \<in> set (district_agg df)"
    and r: "r = score_row (district_agg df) a" by (rule score_rowE)
  from r have cat: "risk_category r = cut_category (CERS r)"
    by (simp only: score_row_category)
  have bounds: "0 \<le> CERS r" "CERS r \<le> 100"
    using score_row_bounds[OF a r] by simp_all
  show "risk_category r = Some Low \<longleftrightarrow> 0 < CERS r \<and> CERS r \<le> 30"
    unfolding cat by (simp add: cut_category_def)
  show "risk_category r = Some Medium \<longleftrightarrow> 30 < CERS r \<and> CERS r \<le> 50"
    unfolding cat by (simp add: cut_category_def)
  show "risk_category r = Some High \<longleftrightarrow> 50 < CERS r \<and> CERS r \<le> 70"
    unfolding cat by (simp add: cut_category_def)
  show "risk_category r = Some Critical \<longleftrightarrow> 70 < CERS r \<and> CERS r \<le> 100"
    unfolding cat by (simp add: cut_category_def)
  show "risk_category r = None \<longleftrightarrow> CERS r = 0"
    unfolding cat using bounds by (auto simp: cut_category_def)
next
  show "\<exists>frame. critical_risk_districts (risk_summary (calculate_exclusion_risk_score frame))
          + high_risk_districts (risk_summary (calculate_exclusion_risk_score frame))
          + medium_risk_districts (risk_summary (calculate_exclusion_risk_score frame))
          + low_risk_districts (risk_summary (calculate_exclusion_risk_score frame))
          < total_districts (risk_summary (calculate_exclusion_risk_score frame))"
    by (rule exI[of _ ex_done_frame]) (simp add: ex_done_summary)
qed

text \<open>
  The example: the district whose enrolment is fully updated scores 0 and has no label;
  North in the larger example scores 81.67 and is Critical.
\<close>

theorem risk_categorization_witness:
  "hd (calculate_exclusion_risk_score ex_done_frame)
     \<in> set (calculate_exclusion_risk_score ex_done_frame)
   \<and> CERS (hd (calculate_exclusion_risk_score ex_done_frame)) = 0
   \<and> risk_category (hd (calculate_exclusion_risk_score ex_done_frame)) = None
   \<and> hd (calculate_exclusion_risk_score ex_frame) \<in> set (calculate_exclusion_risk_score ex_frame)
   \<and> CERS (hd (calculate_exclusion_risk_score ex_frame)) = 81.67
   \<and> risk_category (hd (calculate_exclusion_risk_score ex_frame)) = Some Critical"
proof -
  let ?z = "hd (calculate_exclusion_risk_score ex_done_frame)"
  let ?n = "hd (calculate_exclusion_risk_score ex_frame)"
  have memz: "?z \<in> set (calculate_exclusion_risk_score ex_done_frame)"
    by (simp add: ex_done_table_rows)
  have memn: "?n \<in> set (calculate_exclusion_risk_score ex_frame)"
    by (simp add: ex_table_rows)
  have cz: "CERS ?z = 0" by (simp add: ex_done_table_rows)
  have cn: "CERS ?n = 81.67" by (simp add: ex_table_rows)
  have "risk_category ?z = None"
    using risk_categorization[of ?z ex_done_frame] memz cz by blast
  moreover have "risk_category ?n = Some Critical"
    using risk_categorization[of ?n ex_frame] memn cn by simp
  ultimately show ?thesis
    using memz memn cz cn by blast
qed

subsection \<open>The pipeline\<close>

text \<open>
  A stage that reads state which no earlier stage has produced fails; on a fresh object
  every stage but the first does.
\<close>

lemma run_failure:
  assumes "run_full_analysis w now a = Inl e"
  shows "e = ValueError \<and> (enrol_files w = [] \<or> demo_files w = [] \<or> bio_files w = [])"
  using assms by (auto simp: run_unfold Let_def split: if_splits)

lemma stages_need_state:
  "create_integrated_dataset_stage (init path) = Inl AttributeError"
  "discover_hidden_pattern (init path) = Inl AttributeError"
  "calculate_exclusion_risk_score_stage (init path) = Inl AttributeError"
  "generate_visualizations (init path) = Inl (KeyError ''cers_districts'')"
  "generate_executive_report now (init path) = Inl (KeyError ''cers_summary'')"
  by (simp_all add: stage_defs init_def)

text \<open>
  Claim C5. A run of \<open>run_full_analysis\<close> that completes has entered the stages in the
  order load, integrate, (discover), score, (propose, quantify), visualize, report, each
  exactly once. A run fails only in \<open>load_all_datasets\<close>, when one of the three \<open>glob\<close>
  patterns finds no file: no later stage ever misses state, each reads what the stages
  before it have produced. With files for all three datasets the run completes.
\<close>

theorem pipeline_linear_order:
  "(run_full_analysis w now (init path) = Inr a \<longrightarrow>
      calls a = [LoadAllDatasets, CreateIntegratedDataset, DiscoverHiddenPattern,
                 CalculateExclusionRiskScore, ProposeInterventionFramework,
                 QuantifyEconomicImpact, GenerateVisualizations, GenerateExecutiveReport])
   \<and> (run_full_analysis w now (init path) = Inl e \<longrightarrow>
        e = ValueError \<and> (enrol_files w = [] \<or> demo_files w = [] \<or> bio_files w = []))
   \<and> (enrol_files w \<noteq> [] \<and> demo_files w \<noteq> [] \<and> bio_files w \<noteq> [] \<longrightarrow>
        (\<exists>a'. run_full_analysis w now (init path) = Inr a'))"
proof -
  have ok: "calls a = [LoadAllDatasets, CreateIntegratedDataset, DiscoverHiddenPattern,
                 CalculateExclusionRiskScore, ProposeInterventionFramework,
                 QuantifyEconomicImpact, GenerateVisualizations, GenerateExecutiveReport]"
    if "run_full_analysis w now (init path) = Inr a"
    using that by (simp add: run_calls init_def)
  have err: "e = ValueError \<and> (enrol_files w = [] \<or> demo_files w = [] \<or> bio_files w = [])"
    if "run_full_analysis w now (init path) = Inl e"
    using that by (rule run_failure)
  have total: "\<exists>a'. run_full_analysis w now (init path) = Inr a'"
    if "enrol_files w \<noteq> [] \<and> demo_files w \<noteq> [] \<and> bio_files w \<noteq> []"
    using that by (simp add: run_unfold Let_def)
  show ?thesis
    using ok err total by blast
qed

text \<open>The example run completes with that trace; without enrolment files the load fails.\<close>

theorem pipeline_linear_order_witness:
  "enrol_files ex_workspace \<noteq> [] \<and> demo_files ex_workspace \<noteq> [] \<and> bio_files ex_workspace \<noteq> []
   \<and> (case run_full_analysis ex_workspace ex_new_year (init ''data'') of
         Inl e \<Rightarrow> False
       | Inr a \<Rightarrow> calls a = [LoadAllDatasets, CreateIntegratedDataset, DiscoverHiddenPattern,
                 CalculateExclusionRiskScore, ProposeInterventionFramework,
                 QuantifyEconomicImpact, GenerateVisualizations, GenerateExecutiveReport])
   \<and> (case run_full_analysis \<lparr>enrol_files = [], demo_files = [ex_demo], bio_files = [ex_bio]\<rparr>
               ex_new_year (init ''data'') of
         Inl e \<Rightarrow> e = ValueError
       | Inr a \<Rightarrow> False)"
proof -
  let ?none = "\<lparr>enrol_files = [], demo_files = [ex_demo], bio_files = [ex_bio]\<rparr>"
  have files: "enrol_files ex_workspace \<noteq> [] \<and> demo_files ex_workspace \<noteq> []
      \<and> bio_files ex_workspace \<noteq> []"
    by (simp add: ex_workspace_def)
  with pipeline_linear_order[of ex_workspace ex_new_year "''data''"]
  obtain a where run: "run_full_analysis ex_workspace ex_new_year (init ''data'') = Inr a"
    by blast
  with pipeline_linear_order[of ex_workspace ex_new_year "''data''" a]
  have calls: "calls a = [LoadAllDatasets, CreateIntegratedDataset, DiscoverHiddenPattern,
                 CalculateExclusionRiskScore, ProposeInterventionFramework,
                 QuantifyEconomicImpact, GenerateVisualizations, GenerateExecutiveReport]"
    by blast
  have fail: "run_full_analysis ?none ex_new_year (init ''data'') = Inl ValueError"
    by (simp add: run_full_analysis_def stage_defs)
  show ?thesis
    using files by (simp add: run calls fail)
qed

subsection \<open>The district-level aggregation\<close>

lemma set_map_filter: "set (List.map_filter f xs) = {y. \<exists>x\<in>set xs. f x = Some y}"
  by (force simp: List.map_filter_def image_iff)

lemma distinct_group_keys: "distinct (group_keys kf rows)"
  by (simp add: group_keys_def)

lemma set_group_keys: "set (group_keys kf rows) = {k. \<exists>r\<in>set rows. kf r = Some k}"
  by (simp add: group_keys_def set_map_filter)

lemma district_agg_keys: "map dkey (district_agg df) = group_keys district_key df"
  by (simp add: district_agg_def dkey_def Let_def comp_def)

lemma score_row_key: "dkey (score_row tbl a) = dkey a"
  by (simp add: score_row_def dkey_def Let_def)

lemma table_keys_set:
  "set (map dkey (calculate_exclusion_risk_score df)) = set (group_keys district_key df)"
proof -
  have "set (map dkey (calculate_exclusion_risk_score df))
          = dkey ` score_row (district_agg df) ` set (district_agg df)"
    by (simp add: calculate_exclusion_risk_score_def sort_values_CERS_desc_def Let_def)
  also have "\<dots> = dkey ` set (district_agg df)"
    by (simp add: image_image score_row_key)
  also have "\<dots> = set (map dkey (district_agg df))" by simp
  finally show ?thesis by (simp only: district_agg_keys)
qed

lemma table_keys_distinct: "distinct (map dkey (calculate_exclusion_risk_score df))"
proof -
  let ?tbl = "district_agg df"
  have "distinct (map dkey (map (score_row ?tbl) ?tbl))"
    using distinct_group_keys[of district_key df]
    by (simp add: comp_def score_row_key district_agg_keys[symmetric])
  then have "distinct (map (score_row ?tbl) ?tbl) \<and> inj_on dkey (set (map (score_row ?tbl) ?tbl))"
    by (simp only: distinct_map)
  then have "distinct (sort_key (\<lambda>r. - CERS r) (map (score_row ?tbl) ?tbl))
      \<and> inj_on dkey (set (sort_key (\<lambda>r. - CERS r) (map (score_row ?tbl) ?tbl)))"
    by simp
  then show ?thesis
    by (simp only: calculate_exclusion_risk_score_def sort_values_CERS_desc_def Let_def
        distinct_map)
qed

lemma district_group_rows:
  "group_rows district_key df k = filter (\<lambda>x. state x = fst k \<and> district x = snd k) df"
  by (simp add: group_rows_def district_key_def prod_eq_iff)

lemma district_agg_rowE:
  assumes "a \<in> set (district_agg df)"
  obtains k where "k \<in> set (group_keys district_key df)"
    and "a = (let g = group_rows district_key df k in
            \<lparr> dr_state = fst k, dr_district = snd k,
              avg_bio_completion = agg_mean (map bio_completion_rate g),
              avg_demo_completion = agg_mean (map demo_completion_rate g),
              avg_bio_gap = agg_mean (map bio_enrol_gap g),
              bio_gap_volatility = fillna0 (agg_std (map bio_enrol_gap g)),
              dr_youth_ratio_enrol = agg_mean (map youth_ratio_enrol g),
              dr_youth_ratio_bio = agg_mean (map youth_ratio_bio g),
              total_enrolments = sum_list (map enrol_count g) \<rparr>)"
  using assms by (auto simp: district_agg_def)

lemma std_explicit:
  "fillna0 (agg_std (map f g)) =
     (if length g < 2 then 0
      else sqrt (sum_list (map (\<lambda>x. (f x - sum_list (map f g) / real (length g))\<^sup>2) g)
                   / (real (length g) - 1)))"
  by (simp add: fillna0_def agg_std_def agg_mean_def comp_def of_nat_diff)

text \<open>
  Claim C6. The risk table has exactly one row for every (state, district) pair of the
  combined frame. The row of a pair aggregates the frame's rows of that pair: the means of
  the two completion rates and of the two youth ratios, the mean and the sample standard
  deviation of \<open>bio_enrol_gap\<close> (0 for a district with a single row), and the sum of
  \<open>enrol_count\<close>.
\<close>

theorem one_row_per_district:
  "distinct (map (\<lambda>r. (dr_state r, dr_district r)) (calculate_exclusion_risk_score df))
   \<and> set (map (\<lambda>r. (dr_state r, dr_district r)) (calculate_exclusion_risk_score df))
       = (\<lambda>x. (state x, district x)) ` set df
   \<and> (r \<in> set (calculate_exclusion_risk_score df) \<longrightarrow>
        (let g = filter (\<lambda>x. state x = dr_state r \<and> district x = dr_district r) df;
             n = real (length g) in
         g \<noteq> []
         \<and> avg_bio_completion r = sum_list (map bio_completion_rate g) / n
         \<and> avg_demo_completion r = sum_list (map demo_completion_rate g) / n
         \<and> avg_bio_gap r = sum_list (map bio_enrol_gap g) / n
         \<and> bio_gap_volatility r =
             (if length g < 2 then 0
              else sqrt (sum_list (map (\<lambda>x. (bio_enrol_gap x - avg_bio_gap r)\<^sup>2) g) / (n - 1)))
         \<and> dr_youth_ratio_enrol r = sum_list (map youth_ratio_enrol g) / n
         \<and> dr_youth_ratio_bio r = sum_list (map youth_ratio_bio g) / n
         \<and> total_enrolments r = sum_list (map enrol_count g)))"
proof -
  let ?t = "calculate_exclusion_risk_score df"
  have keys: "map (\<lambda>r. (dr_state r, dr_district r)) ?t = map dkey ?t"
    by (simp add: dkey_def)
  have d: "distinct (map dkey ?t)"
    by (rule table_keys_distinct)
  have "set (map dkey ?t) = set (group_keys district_key df)"
    by (rule table_keys_set)
  also have "\<dots> = (\<lambda>x. (state x, district x)) ` set df"
    by (auto simp: set_group_keys district_key_def)
  finally have s: "set (map dkey ?t) = (\<lambda>x. (state x, district x)) ` set df" .
  have rows: "let g = filter (\<lambda>x. state x = dr_state r \<and> district x = dr_district r) df;
             n = real (length g) in
         g \<noteq> []
         \<and> avg_bio_completion r = sum_list (map bio_completion_rate g) / n
         \<and> avg_demo_completion r = sum_list (map demo_completion_rate g) / n
         \<and> avg_bio_gap r = sum_list (map bio_enrol_gap g) / n
         \<and> bio_gap_volatility r =
             (if length g < 2 then 0
              else sqrt (sum_list (map (\<lambda>x. (bio_enrol_gap x - avg_bio_gap r)\<^sup>2) g) / (n - 1)))
         \<and> dr_youth_ratio_enrol r = sum_list (map youth_ratio_enrol g) / n
         \<and> dr_youth_ratio_bio r = sum_list (map youth_ratio_bio g) / n
         \<and> total_enrolments r = sum_list (map enrol_count g)"
    if mem: "r \<in> set ?t"
  proof -
    from mem obtain a where a: "a \<in> set (district_agg df)"
      and r: "r = score_row (district_agg df) a" by (rule score_rowE)
    from a obtain k where k: "k \<in> set (group_keys district_key df)"
      and a_eq: "a = (let g = group_rows district_key df k in
            \<lparr> dr_state = fst k, dr_district = snd k,
              avg_bio_completion = agg_mean (map bio_completion_rate g),
              avg_demo_completion = agg_mean (map demo_completion_rate g),
              avg_bio_gap = agg_mean (map bio_enrol_gap g),
              bio_gap_volatility = fillna0 (agg_std (map bio_enrol_gap g)),
              dr_youth_ratio_enrol = agg_mean (map youth_ratio_enrol g),
              dr_youth_ratio_bio = agg_mean (map youth_ratio_bio g),
              total_enrolments = sum_list (map enrol_count g) \<rparr>)"
      by (rule district_agg_rowE)
    define g where "g = filter (\<lambda>x. state x = fst k \<and> district x = snd k) df"
    from k obtain x where "x \<in> set df" "state x = fst k" "district x = snd k"
      by (auto simp: set_group_keys district_key_def)
    then have ne: "g \<noteq> []" by (auto simp: g_def filter_empty_conv)
    have st: "dr_state r = fst k" "dr_district r = snd k"
      by (simp_all add: r a_eq score_row_def Let_def)
    have f: "avg_bio_completion r = agg_mean (map bio_completion_rate g)"
      "avg_demo_completion r = agg_mean (map demo_completion_rate g)"
      "avg_bio_gap r = agg_mean (map bio_enrol_gap g)"
      "bio_gap_volatility r = fillna0 (agg_std (map bio_enrol_gap g))"
      "dr_youth_ratio_enrol r = agg_mean (map youth_ratio_enrol g)"
      "dr_youth_ratio_bio r = agg_mean (map youth_ratio_bio g)"
      "total_enrolments r = sum_list (map enrol_count g)"
      by (simp_all add: r a_eq score_row_def Let_def district_group_rows g_def)
    have gap: "avg_bio_gap r = sum_list (map bio_enrol_gap g) / real (length g)"
      by (simp add: f agg_mean_def)
    have vol: "bio_gap_volatility r =
             (if length g < 2 then 0
              else sqrt (sum_list (map (\<lambda>x. (bio_enrol_gap x - avg_bio_gap r)\<^sup>2) g)
                     / (real (length g) - 1)))"
      unfolding gap by (simp only: f(4) std_explicit)
    show ?thesis
      unfolding st Let_def g_def[symmetric]
      using ne vol f(1,2,3,5,6,7) by (simp add: agg_mean_def)
  qed
  show ?thesis
    unfolding keys using d s rows by blast
qed

text \<open>
  The example: North has the three rows with gaps 0, 1 and 2, so the mean gap is 1, the
  volatility \<open>sqrt ((1 + 0 + 1) / 2)\<close> and the total of enrolments 4.
\<close>

theorem one_row_per_district_witness:
  "hd (calculate_exclusion_risk_score ex_frame) \<in> set (calculate_exclusion_risk_score ex_frame)
   \<and> map (\<lambda>r. (dr_state r, dr_district r)) (calculate_exclusion_risk_score ex_frame)
       = [(''Goa'', ''North''), (''Goa'', ''South'')]
   \<and> map bio_enrol_gap (filter (\<lambda>x. state x = ''Goa'' \<and> district x = ''North'') ex_frame)
       = [0, 1, 2]
   \<and> avg_bio_gap (hd (calculate_exclusion_risk_score ex_frame)) = (0 + 1 + 2) / 3
   \<and> bio_gap_volatility (hd (calculate_exclusion_risk_score ex_frame))
       = sqrt (((0 - 1)\<^sup>2 + (1 - 1)\<^sup>2 + (2 - 1)\<^sup>2) / (3 - 1))
   \<and> total_enrolments (hd (calculate_exclusion_risk_score ex_frame)) = 1 + 1 + 2"
proof -
  let ?r = "hd (calculate_exclusion_risk_score ex_frame)"
  have mem: "?r \<in> set (calculate_exclusion_risk_score ex_frame)"
    by (simp add: ex_table_rows)
  have key: "dr_state ?r = ''Goa''" "dr_district ?r = ''North''"
    by (simp_all add: ex_table_rows)
  have keys: "map (\<lambda>r. (dr_state r, dr_district r)) (calculate_exclusion_risk_score ex_frame)
       = [(''Goa'', ''North''), (''Goa'', ''South'')]"
    by (simp add: ex_table_rows)
  have g: "filter (\<lambda>x. state x = ''Goa'' \<and> district x = ''North'') ex_frame
      = [ex_frame ! 0, ex_frame ! Suc 0, ex_frame ! 3]"
    by (simp add: ex_frame_rows)
  have gaps: "bio_enrol_gap (ex_frame ! 0) = 0" "bio_enrol_gap (ex_frame ! Suc 0) = 1"
    "bio_enrol_gap (ex_frame ! 3) = 2"
    and counts: "enrol_count (ex_frame ! 0) = 1" "enrol_count (ex_frame ! Suc 0) = 1"
    "enrol_count (ex_frame ! 3) = 2"
    by (simp_all add: ex_frame_rows)
  from one_row_per_district[of ex_frame ?r] mem
  have "avg_bio_gap ?r = (0 + 1 + 2) / 3"
    and "bio_gap_volatility ?r = sqrt (((0 - avg_bio_gap ?r)\<^sup>2 + (1 - avg_bio_gap ?r)\<^sup>2
            + (2 - avg_bio_gap ?r)\<^sup>2) / (3 - 1))"
    and "total_enrolments ?r = 1 + 1 + 2"
    by (simp_all add: Let_def key g gaps counts)
  then show ?thesis
    using mem keys by (simp add: g gaps)
qed

subsection \<open>The integrated dataset\<close>

text \<open>
  On tables with one row per key, as \<open>groupby\<close> produces them, the outer merge has one
  row per key of either side.
\<close>

lemma rows_of_distinct:
  "distinct (map fst tbl) \<Longrightarrow>
     rows_of tbl k = (case map_of tbl k of None \<Rightarrow> [] | Some a \<Rightarrow> [a])"
proof (induction tbl)
  case Nil
  then show ?case by (simp add: rows_of_def)
next
  case (Cons p tbl)
  then have IH: "rows_of tbl k = (case map_of tbl k of None \<Rightarrow> [] | Some a \<Rightarrow> [a])"
    by simp
  show ?case
  proof (cases "fst p = k")
    case True
    with Cons.prems have "k \<notin> fst ` set tbl" by auto
    then have "map_of tbl k = None" by (simp add: map_of_eq_None_iff)
    with IH have "rows_of tbl k = []" by simp
    then have "filter (\<lambda>q. fst q = k) tbl = []" by (simp add: rows_of_def)
    with True show ?thesis by (cases p) (simp add: rows_of_def)
  next
    case False
    with IH show ?thesis by (cases p) (simp add: rows_of_def)
  qed
qed

lemma merge_at_single:
  assumes "distinct (map fst l)" and "distinct (map fst r)"
    and "k \<in> fst ` set l \<union> fst ` set r"
  shows "merge_at k (rows_of l k) (rows_of r k) = [(k, map_of l k, map_of r k)]"
proof -
  have some: "map_of l k \<noteq> None \<or> map_of r k \<noteq> None"
    using assms(3) by (auto simp: map_of_eq_None_iff)
  show ?thesis
    using some
    by (auto simp: merge_at_def rows_of_distinct[OF assms(1)] rows_of_distinct[OF assms(2)]
        split: option.splits)
qed

lemma concat_singletons:
  "(\<And>k. k \<in> set ks \<Longrightarrow> f k = [g k]) \<Longrightarrow> concat (map f ks) = map g ks"
  by (induction ks) simp_all

lemma outer_merge_distinct:
  assumes "distinct (map fst l)" and "distinct (map fst r)"
  shows "outer_merge l r =
     map (\<lambda>k. (k, map_of l k, map_of r k)) (sort (remdups (map fst l @ map fst r)))"
  unfolding outer_merge_def
  by (rule concat_singletons) (simp add: merge_at_single[OF assms])

lemma map_of_keyed: "map_of (map (\<lambda>k. (k, f k)) ks) k = (if k \<in> set ks then Some (f k) else None)"
  by (induction ks) simp_all

lemma agg_keys:
  "map fst (enrol_agg es) = group_keys enrol_key es"
  "map fst (demo_agg ds) = group_keys demo_key ds"
  "map fst (bio_agg bs) = group_keys bio_key bs"
  by (simp_all add: enrol_agg_def demo_agg_def bio_agg_def Let_def comp_def)

lemma merge_all_distinct:
  assumes "distinct (map fst ea)" and "distinct (map fst da)" and "distinct (map fst ba)"
  shows "merge_all ea da ba = map (nan_row (map_of ea) (map_of da) (map_of ba)) (all_keys ea da ba)"
proof -
  let ?ks1 = "sort (remdups (map fst ea @ map fst da))"
  let ?m1 = "map (\<lambda>k. (k, (map_of ea k, map_of da k))) ?ks1"
  have m1: "map (\<lambda>(k, e, d). (k, (e, d))) (outer_merge ea da) = ?m1"
    by (simp add: outer_merge_distinct[OF assms(1,2)] comp_def)
  have keys1: "map fst ?m1 = ?ks1" by (simp add: comp_def)
  have d1: "distinct (map fst ?m1)" unfolding keys1 by simp
  have m2: "outer_merge ?m1 ba =
      map (\<lambda>k. (k, map_of ?m1 k, map_of ba k)) (all_keys ea da ba)"
    unfolding all_keys_def using outer_merge_distinct[OF d1 assms(3)] unfolding keys1 .
  have row: "(case (k, map_of ?m1 k, map_of ba k) of (k, ed, b) \<Rightarrow>
            let e = (case ed of None \<Rightarrow> None | Some p \<Rightarrow> fst p);
                d = (case ed of None \<Rightarrow> None | Some p \<Rightarrow> snd p) in
            \<lparr> n_date = fst k, n_state = fst (snd k), n_district = snd (snd k),
              n_age_0_5 = map_option ea_age_0_5 e,
              n_age_5_17 = map_option ea_age_5_17 e,
              n_age_18_greater = map_option ea_age_18_greater e,
              n_enrol_count = map_option ea_enrol_count e,
              n_demo_age_5_17 = map_option da_demo_age_5_17 d,
              n_demo_age_17 = map_option da_demo_age_17 d,
              n_demo_count = map_option da_demo_count d,
              n_bio_age_5_17 = map_option ba_bio_age_5_17 b,
              n_bio_age_17 = map_option ba_bio_age_17 b,
              n_bio_count = map_option ba_bio_count b \<rparr>)
         = nan_row (map_of ea) (map_of da) (map_of ba) k" for k
  proof (cases "k \<in> set ?ks1")
    case True
    then show ?thesis by (simp add: map_of_keyed nan_row_def Let_def)
  next
    case False
    then have "map_of ea k = None" "map_of da k = None"
      by (auto simp: map_of_eq_None_iff)
    with False show ?thesis by (simp add: map_of_keyed nan_row_def Let_def)
  qed
  show ?thesis
    unfolding merge_all_def m1 m2 map_map comp_def by (simp only: row)
qed

lemma set_all_keys:
  "set (all_keys ea da ba) = fst ` set ea \<union> fst ` set da \<union> fst ` set ba"
  by (simp add: all_keys_def)

lemma distinct_all_keys: "distinct (all_keys ea da ba)"
  by (simp add: all_keys_def)

lemma agg_distinct:
  "distinct (map fst (enrol_agg es))" "distinct (map fst (demo_agg ds))"
  "distinct (map fst (bio_agg bs))"
  by (simp_all add: agg_keys distinct_group_keys)

lemma integrated_rows:
  "create_integrated_dataset es ds bs =
     map (built_row (map_of (enrol_agg es)) (map_of (demo_agg ds)) (map_of (bio_agg bs)))
         (all_keys (enrol_agg es) (demo_agg ds) (bio_agg bs))"
  by (simp add: create_integrated_dataset_def engineer_features_def combined_of_def
      merge_all_distinct[OF agg_distinct] built_row_def comp_def)

lemma built_row_key: "row_key (built_row e d b k) = k"
  by (simp add: built_row_def row_key_def engineer_row_def fillna_row_def nan_row_def Let_def)

lemma built_row_enrol:
  "e k = None \<Longrightarrow>
     age_0_5 (built_row e d b k) = 0 \<and> age_5_17 (built_row e d b k) = 0
     \<and> age_18_greater (built_row e d b k) = 0 \<and> enrol_count (built_row e d b k) = 0"
  "e k = Some x \<Longrightarrow>
     age_0_5 (built_row e d b k) = ea_age_0_5 x \<and> age_5_17 (built_row e d b k) = ea_age_5_17 x
     \<and> age_18_greater (built_row e d b k) = ea_age_18_greater x
     \<and> enrol_count (built_row e d b k) = ea_enrol_count x"
  by (simp_all add: built_row_def engineer_row_def fillna_row_def nan_row_def fillna0_def Let_def)

lemma built_row_demo:
  "d k = None \<Longrightarrow>
     demo_age_5_17 (built_row e d b k) = 0 \<and> demo_age_17 (built_row e d b k) = 0
     \<and> demo_count (built_row e d b k) = 0"
  "d k = Some y \<Longrightarrow>
     demo_age_5_17 (built_row e d b k) = da_demo_age_5_17 y
     \<and> demo_age_17 (built_row e d b k) = da_demo_age_17 y
     \<and> demo_count (built_row e d b k) = da_demo_count y"
  by (simp_all add: built_row_def engineer_row_def fillna_row_def nan_row_def fillna0_def Let_def)

lemma built_row_bio:
  "b k = None \<Longrightarrow>
     bio_age_5_17 (built_row e d b k) = 0 \<and> bio_age_17 (built_row e d b k) = 0
     \<and> bio_count (built_row e d b k) = 0"
  "b k = Some z \<Longrightarrow>
     bio_age_5_17 (built_row e d b k) = ba_bio_age_5_17 z
     \<and> bio_age_17 (built_row e d b k) = ba_bio_age_17 z
     \<and> bio_count (built_row e d b k) = ba_bio_count z"
  by (simp_all add: built_row_def engineer_row_def fillna_row_def nan_row_def fillna0_def Let_def)

text \<open>
  The columns of an aggregate row: the sums of the present cells and the number of present
  pincodes over the dataset's rows of that key.
\<close>

lemma agg_sum_explicit:
  "agg_sum (map f g) = sum_list (map (\<lambda>x. case f x of None \<Rightarrow> 0 | Some v \<Rightarrow> v) g)"
  by (induction g) (auto simp: agg_sum_def List.map_filter_def split: option.splits)

lemma agg_count_explicit:
  "agg_count (map f (filter P g)) = real (length (filter (\<lambda>x. P x \<and> f x \<noteq> None) g))"
  by (induction g) (auto simp: agg_count_def)

lemma enrol_agg_contents:
  assumes "(k, e) \<in> set (enrol_agg es)"
  shows "ea_age_0_5 e = sum_list (map (\<lambda>x. case e_age_0_5 x of None \<Rightarrow> 0 | Some v \<Rightarrow> v)
                                 (filter (\<lambda>x. enrol_key x = Some k) es))
       \<and> ea_age_5_17 e = sum_list (map (\<lambda>x. case e_age_5_17 x of None \<Rightarrow> 0 | Some v \<Rightarrow> v)
                                 (filter (\<lambda>x. enrol_key x = Some k) es))
       \<and> ea_age_18_greater e
           = sum_list (map (\<lambda>x. case e_age_18_greater x of None \<Rightarrow> 0 | Some v \<Rightarrow> v)
                           (filter (\<lambda>x. enrol_key x = Some k) es))
       \<and> ea_enrol_count e
           = real (length (filter (\<lambda>x. enrol_key x = Some k \<and> e_pincode x \<noteq> None) es))"
  using assms
  by (auto simp: enrol_agg_def Let_def group_rows_def agg_sum_explicit agg_count_explicit)

lemma demo_agg_contents:
  assumes "(k, d) \<in> set (demo_agg ds)"
  shows "da_demo_age_5_17 d
           = sum_list (map (\<lambda>x. case d_demo_age_5_17 x of None \<Rightarrow> 0 | Some v \<Rightarrow> v)
                           (filter (\<lambda>x. demo_key x = Some k) ds))
       \<and> da_demo_age_17 d
           = sum_list (map (\<lambda>x. case d_demo_age_17 x of None \<Rightarrow> 0 | Some v \<Rightarrow> v)
                           (filter (\<lambda>x. demo_key x = Some k) ds))
       \<and> da_demo_count d
           = real (length (filter (\<lambda>x. demo_key x = Some k \<and> d_pincode x \<noteq> None) ds))"
  using assms
  by (auto simp: demo_agg_def Let_def group_rows_def agg_sum_explicit agg_count_explicit)

lemma bio_agg_contents:
  assumes "(k, b) \<in> set (bio_agg bs)"
  shows "ba_bio_age_5_17 b
           = sum_list (map (\<lambda>x. case b_bio_age_5_17 x of None \<Rightarrow> 0 | Some v \<Rightarrow> v)
                           (filter (\<lambda>x. bio_key x = Some k) bs))
       \<and> ba_bio_age_17 b
           = sum_list (map (\<lambda>x. case b_bio_age_17 x of None \<Rightarrow> 0 | Some v \<Rightarrow> v)
                           (filter (\<lambda>x. bio_key x = Some k) bs))
       \<and> ba_bio_count b
           = real (length (filter (\<lambda>x. bio_key x = Some k \<and> b_pincode x \<noteq> None) bs))"
  using assms
  by (auto simp: bio_agg_def Let_def group_rows_def agg_sum_explicit agg_count_explicit)

text \<open>
  Claim C2. Each of the three aggregates has one row per key (date, state, district) of
  its dataset, holding for that key the sums of the age columns and the count of pincodes
  over the dataset's rows. The combined frame has exactly one row for every key of at
  least one aggregate; on such a row the columns of an aggregate that lacks the key are 0,
  and the columns of an aggregate that has the key carry that aggregate's values.
\<close>

theorem integrated_dataset_outer_join:
  "distinct (map fst (enrol_agg es)) \<and> distinct (map fst (demo_agg ds))
   \<and> distinct (map fst (bio_agg bs))
   \<and> (\<forall>k e. (k, e) \<in> set (enrol_agg es) \<longrightarrow>
          ea_age_0_5 e = sum_list (map (\<lambda>x. case e_age_0_5 x of None \<Rightarrow> 0 | Some v \<Rightarrow> v)
                                    (filter (\<lambda>x. enrol_key x = Some k) es))
        \<and> ea_age_5_17 e = sum_list (map (\<lambda>x. case e_age_5_17 x of None \<Rightarrow> 0 | Some v \<Rightarrow> v)
                                     (filter (\<lambda>x. enrol_key x = Some k) es))
        \<and> ea_age_18_greater e
            = sum_list (map (\<lambda>x. case e_age_18_greater x of None \<Rightarrow> 0 | Some v \<Rightarrow> v)
                            (filter (\<lambda>x. enrol_key x = Some k) es))
        \<and> ea_enrol_count e
            = real (length (filter (\<lambda>x. enrol_key x = Some k \<and> e_pincode x \<noteq> None) es)))
   \<and> (\<forall>k d. (k, d) \<in> set (demo_agg ds) \<longrightarrow>
          da_demo_age_5_17 d
            = sum_list (map (\<lambda>x. case d_demo_age_5_17 x of None \<Rightarrow> 0 | Some v \<Rightarrow> v)
                            (filter (\<lambda>x. demo_key x = Some k) ds))
        \<and> da_demo_age_17 d
            = sum_list (map (\<lambda>x. case d_demo_age_17 x of None \<Rightarrow> 0 | Some v \<Rightarrow> v)
                            (filter (\<lambda>x. demo_key x = Some k) ds))
        \<and> da_demo_count d
            = real (length (filter (\<lambda>x. demo_key x = Some k \<and> d_pincode x \<noteq> None) ds)))
   \<and> (\<forall>k b. (k, b) \<in> set (bio_agg bs) \<longrightarrow>
          ba_bio_age_5_17 b
            = sum_list (map (\<lambda>x. case b_bio_age_5_17 x of None \<Rightarrow> 0 | Some v \<Rightarrow> v)
                            (filter (\<lambda>x. bio_key x = Some k) bs))
        \<and> ba_bio_age_17 b
            = sum_list (map (\<lambda>x. case b_bio_age_17 x of None \<Rightarrow> 0 | Some v \<Rightarrow> v)
                            (filter (\<lambda>x. bio_key x = Some k) bs))
        \<and> ba_bio_count b
            = real (length (filter (\<lambda>x. bio_key x = Some k \<and> b_pincode x \<noteq> None) bs)))
   \<and> fst ` set (enrol_agg es) = {k. \<exists>x\<in>set es. enrol_key x = Some k}
   \<and> fst ` set (demo_agg ds) = {k. \<exists>x\<in>set ds. demo_key x = Some k}
   \<and> fst ` set (bio_agg bs) = {k. \<exists>x\<in>set bs. bio_key x = Some k}
   \<and> distinct (map row_key (create_integrated_dataset es ds bs))
   \<and> set (map row_key (create_integrated_dataset es ds bs))
       = fst ` set (enrol_agg es) \<union> fst ` set (demo_agg ds) \<union> fst ` set (bio_agg bs)
   \<and> (r \<in> set (create_integrated_dataset es ds bs) \<longrightarrow>
        (row_key r \<notin> fst ` set (enrol_agg es) \<longrightarrow>
           age_0_5 r = 0 \<and> age_5_17 r = 0 \<and> age_18_greater r = 0 \<and> enrol_count r = 0)
      \<and> (row_key r \<notin> fst ` set (demo_agg ds) \<longrightarrow>
           demo_age_5_17 r = 0 \<and> demo_age_17 r = 0 \<and> demo_count r = 0)
      \<and> (row_key r \<notin> fst ` set (bio_agg bs) \<longrightarrow>
           bio_age_5_17 r = 0 \<and> bio_age_17 r = 0 \<and> bio_count r = 0)
      \<and> (\<forall>x. (row_key r, x) \<in> set (enrol_agg es) \<longrightarrow>
           age_0_5 r = ea_age_0_5 x \<and> age_5_17 r = ea_age_5_17 x
           \<and> age_18_greater r = ea_age_18_greater x \<and> enrol_count r = ea_enrol_count x)
      \<and> (\<forall>y. (row_key r, y) \<in> set (demo_agg ds) \<longrightarrow>
           demo_age_5_17 r = da_demo_age_5_17 y \<and> demo_age_17 r = da_demo_age_17 y
           \<and> demo_count r = da_demo_count y)
      \<and> (\<forall>z. (row_key r, z) \<in> set (bio_agg bs) \<longrightarrow>
           bio_age_5_17 r = ba_bio_age_5_17 z \<and> bio_age_17 r = ba_bio_age_17 z
           \<and> bio_count r = ba_bio_count z))"
proof -
  let ?ea = "enrol_agg es" and ?da = "demo_agg ds" and ?ba = "bio_agg bs"
  let ?T = "create_integrated_dataset es ds bs"
  have dist: "distinct (map fst ?ea)" "distinct (map fst ?da)" "distinct (map fst ?ba)"
    by (rule agg_distinct)+
  have ksets: "fst ` set ?ea = {k. \<exists>x\<in>set es. enrol_key x = Some k}"
    "fst ` set ?da = {k. \<exists>x\<in>set ds. demo_key x = Some k}"
    "fst ` set ?ba = {k. \<exists>x\<in>set bs. bio_key x = Some k}"
    using set_group_keys[of enrol_key es] set_group_keys[of demo_key ds]
      set_group_keys[of bio_key bs]
    by (simp_all only: agg_keys[symmetric] set_map)
  have keys: "map row_key ?T = all_keys ?ea ?da ?ba"
    by (simp add: integrated_rows comp_def built_row_key)
  have d: "distinct (map row_key ?T)"
    unfolding keys by (rule distinct_all_keys)
  have s: "set (map row_key ?T) = fst ` set ?ea \<union> fst ` set ?da \<union> fst ` set ?ba"
    unfolding keys by (rule set_all_keys)
  have rows: "(row_key r \<notin> fst ` set ?ea \<longrightarrow>
           age_0_5 r = 0 \<and> age_5_17 r = 0 \<and> age_18_greater r = 0 \<and> enrol_count r = 0)
      \<and> (row_key r \<notin> fst ` set ?da \<longrightarrow>
           demo_age_5_17 r = 0 \<and> demo_age_17 r = 0 \<and> demo_count r = 0)
      \<and> (row_key r \<notin> fst ` set ?ba \<longrightarrow>
           bio_age_5_17 r = 0 \<and> bio_age_17 r = 0 \<and> bio_count r = 0)
      \<and> (\<forall>x. (row_key r, x) \<in> set ?ea \<longrightarrow>
           age_0_5 r = ea_age_0_5 x \<and> age_5_17 r = ea_age_5_17 x
           \<and> age_18_greater r = ea_age_18_greater x \<and> enrol_count r = ea_enrol_count x)
      \<and> (\<forall>y. (row_key r, y) \<in> set ?da \<longrightarrow>
           demo_age_5_17 r = da_demo_age_5_17 y \<and> demo_age_17 r = da_demo_age_17 y
           \<and> demo_count r = da_demo_count y)
      \<and> (\<forall>z. (row_key r, z) \<in> set ?ba \<longrightarrow>
           bio_age_5_17 r = ba_bio_age_5_17 z \<and> bio_age_17 r = ba_bio_age_17 z
           \<and> bio_count r = ba_bio_count z)"
    if "r \<in> set ?T"
  proof -
    from that obtain k where r: "r = built_row (map_of ?ea) (map_of ?da) (map_of ?ba) k"
      by (auto simp: integrated_rows)
    have k: "row_key r = k" by (simp add: r built_row_key)
    have absent: "k \<notin> fst ` set tbl \<Longrightarrow> map_of tbl k = None" for tbl :: "(key \<times> 'x) list"
      by (simp add: map_of_eq_None_iff)
    have present: "distinct (map fst tbl) \<Longrightarrow> (k, v) \<in> set tbl \<Longrightarrow> map_of tbl k = Some v"
      for v and tbl :: "(key \<times> 'x) list"
      by simp
    have e0: "age_0_5 r = 0 \<and> age_5_17 r = 0 \<and> age_18_greater r = 0 \<and> enrol_count r = 0"
      if "k \<notin> fst ` set ?ea"
      unfolding r by (rule built_row_enrol(1)) (rule absent[OF that])
    have d0: "demo_age_5_17 r = 0 \<and> demo_age_17 r = 0 \<and> demo_count r = 0"
      if "k \<notin> fst ` set ?da"
      unfolding r by (rule built_row_demo(1)) (rule absent[OF that])
    have b0: "bio_age_5_17 r = 0 \<and> bio_age_17 r = 0 \<and> bio_count r = 0"
      if "k \<notin> fst ` set ?ba"
      unfolding r by (rule built_row_bio(1)) (rule absent[OF that])
    have e1: "age_0_5 r = ea_age_0_5 x \<and> age_5_17 r = ea_age_5_17 x
           \<and> age_18_greater r = ea_age_18_greater x \<and> enrol_count r = ea_enrol_count x"
      if "(k, x) \<in> set ?ea" for x
      unfolding r by (rule built_row_enrol(2)) (rule present[OF dist(1) that])
    have d1: "demo_age_5_17 r = da_demo_age_5_17 y \<and> demo_age_17 r = da_demo_age_17 y
           \<and> demo_count r = da_demo_count y"
      if "(k, y) \<in> set ?da" for y
      unfolding r by (rule built_row_demo(2)) (rule present[OF dist(2) that])
    have b1: "bio_age_5_17 r = ba_bio_age_5_17 z \<and> bio_age_17 r = ba_bio_age_17 z
           \<and> bio_count r = ba_bio_count z"
      if "(k, z) \<in> set ?ba" for z
      unfolding r by (rule built_row_bio(2)) (rule present[OF dist(3) that])
    show ?thesis
      unfolding k using e0 d0 b0 e1 d1 b1 by blast
  qed
  show ?thesis
    using dist ksets d s rows
      enrol_agg_contents[of _ _ es] demo_agg_contents[of _ _ ds] bio_agg_contents[of _ _ bs]
    by blast
qed

text \<open>
  The example: Idukki on 1 April 2025 has two enrolment rows (the row without a date is
  dropped) and two demographic rows, Wayanad on 2 April 2025 two biometric rows. Each row
  of the combined frame holds the sums and counts of its groups and zeros for the rest.
\<close>

lemma ex_join_aggs:
  "enrol_agg ex_join_enrol =
     [(((2025, 4, 1), ''Kerala'', ''Idukki''),
       \<lparr>ea_age_0_5 = 4, ea_age_5_17 = 4, ea_age_18_greater = 2, ea_enrol_count = 1\<rparr>)]"
  "demo_agg ex_join_demo =
     [(((2025, 4, 1), ''Kerala'', ''Idukki''),
       \<lparr>da_demo_age_5_17 = 7, da_demo_age_17 = 10, da_demo_count = 2\<rparr>)]"
  "bio_agg ex_join_bio =
     [(((2025, 4, 2), ''Kerala'', ''Wayanad''),
       \<lparr>ba_bio_age_5_17 = 3, ba_bio_age_17 = 7, ba_bio_count = 2\<rparr>)]"
  by (simp_all add: frame_defs ex_join_enrol_def ex_join_demo_def ex_join_bio_def)

lemma ex_join_keys:
  "map row_key (create_integrated_dataset ex_join_enrol ex_join_demo ex_join_bio) =
     [((2025, 4, 1), ''Kerala'', ''Idukki''), ((2025, 4, 2), ''Kerala'', ''Wayanad'')]"
  by (simp add: frame_defs ex_join_enrol_def ex_join_demo_def ex_join_bio_def row_key_def)

theorem integrated_dataset_outer_join_witness:
  "create_integrated_dataset ex_join_enrol ex_join_demo ex_join_bio ! 0
      \<in> set (create_integrated_dataset ex_join_enrol ex_join_demo ex_join_bio)
   \<and> create_integrated_dataset ex_join_enrol ex_join_demo ex_join_bio ! Suc 0
      \<in> set (create_integrated_dataset ex_join_enrol ex_join_demo ex_join_bio)
   \<and> map row_key (create_integrated_dataset ex_join_enrol ex_join_demo ex_join_bio) =
       [((2025, 4, 1), ''Kerala'', ''Idukki''), ((2025, 4, 2), ''Kerala'', ''Wayanad'')]
   \<and> age_0_5 (create_integrated_dataset ex_join_enrol ex_join_demo ex_join_bio ! 0) = 1 + 3
   \<and> age_5_17 (create_integrated_dataset ex_join_enrol ex_join_demo ex_join_bio ! 0) = 0 + 4
   \<and> age_18_greater (create_integrated_dataset ex_join_enrol ex_join_demo ex_join_bio ! 0)
       = 2 + 0
   \<and> enrol_count (create_integrated_dataset ex_join_enrol ex_join_demo ex_join_bio ! 0) = 1
   \<and> demo_age_5_17 (create_integrated_dataset ex_join_enrol ex_join_demo ex_join_bio ! 0)
       = 2 + 5
   \<and> demo_age_17 (create_integrated_dataset ex_join_enrol ex_join_demo ex_join_bio ! 0)
       = 3 + 7
   \<and> demo_count (create_integrated_dataset ex_join_enrol ex_join_demo ex_join_bio ! 0) = 2
   \<and> bio_age_5_17 (create_integrated_dataset ex_join_enrol ex_join_demo ex_join_bio ! 0) = 0
   \<and> bio_age_17 (create_integrated_dataset ex_join_enrol ex_join_demo ex_join_bio ! 0) = 0
   \<and> bio_count (create_integrated_dataset ex_join_enrol ex_join_demo ex_join_bio ! 0) = 0
   \<and> enrol_count (create_integrated_dataset ex_join_enrol ex_join_demo ex_join_bio ! Suc 0)
       = 0
   \<and> demo_count (create_integrated_dataset ex_join_enrol ex_join_demo ex_join_bio ! Suc 0)
       = 0
   \<and> bio_age_5_17 (create_integrated_dataset ex_join_enrol ex_join_demo ex_join_bio ! Suc 0)
       = 1 + 2
   \<and> bio_age_17 (create_integrated_dataset ex_join_enrol ex_join_demo ex_join_bio ! Suc 0)
       = 3 + 4
   \<and> bio_count (create_integrated_dataset ex_join_enrol ex_join_demo ex_join_bio ! Suc 0)
       = 2"
proof -
  let ?T = "create_integrated_dataset ex_join_enrol ex_join_demo ex_join_bio"
  let ?k0 = "((2025, 4, 1), ''Kerala'', ''Idukki'') :: key"
  let ?k1 = "((2025, 4, 2), ''Kerala'', ''Wayanad'') :: key"
  let ?e = "snd (hd (enrol_agg ex_join_enrol))"
  let ?d = "snd (hd (demo_agg ex_join_demo))"
  let ?b = "snd (hd (bio_agg ex_join_bio))"
  have keys: "map row_key ?T = [?k0, ?k1]" by (rule ex_join_keys)
  have "length (map row_key ?T) = 2" unfolding keys by simp
  then have len: "length ?T = 2" by simp
  have mem0: "?T ! 0 \<in> set ?T" and mem1: "?T ! Suc 0 \<in> set ?T"
    using len by simp_all
  have "row_key (?T ! 0) = map row_key ?T ! 0" "row_key (?T ! Suc 0) = map row_key ?T ! Suc 0"
    using len by simp_all
  then have k0: "row_key (?T ! 0) = ?k0" and k1: "row_key (?T ! Suc 0) = ?k1"
    unfolding keys by simp_all
  have ine: "(row_key (?T ! 0), ?e) \<in> set (enrol_agg ex_join_enrol)"
    and ind: "(row_key (?T ! 0), ?d) \<in> set (demo_agg ex_join_demo)"
    and inb: "(row_key (?T ! Suc 0), ?b) \<in> set (bio_agg ex_join_bio)"
    unfolding k0 k1 by (simp_all add: ex_join_aggs)
  have out0: "row_key (?T ! 0) \<notin> fst ` set (bio_agg ex_join_bio)"
    and oute: "row_key (?T ! Suc 0) \<notin> fst ` set (enrol_agg ex_join_enrol)"
    and outd: "row_key (?T ! Suc 0) \<notin> fst ` set (demo_agg ex_join_demo)"
    unfolding k0 k1 by (simp_all add: ex_join_aggs)
  note thm0 = integrated_dataset_outer_join[of ex_join_enrol ex_join_demo ex_join_bio "?T ! 0"]
  note thm1 = integrated_dataset_outer_join[of ex_join_enrol ex_join_demo ex_join_bio
      "?T ! Suc 0"]
  note contents = thm0[THEN conjunct2, THEN conjunct2, THEN conjunct2]
  note enrol_sums = contents[THEN conjunct1, THEN spec, THEN spec, THEN mp, OF ine]
  note demo_sums = contents[THEN conjunct2, THEN conjunct1, THEN spec, THEN spec, THEN mp,
      OF ind]
  note bio_sums = contents[THEN conjunct2, THEN conjunct2, THEN conjunct1, THEN spec,
      THEN spec, THEN mp, OF inb]
  note rows0 = contents[THEN conjunct2, THEN conjunct2, THEN conjunct2, THEN conjunct2,
      THEN conjunct2, THEN conjunct2, THEN conjunct2, THEN conjunct2, THEN mp, OF mem0]
  note rows1 = thm1[THEN conjunct2, THEN conjunct2, THEN conjunct2, THEN conjunct2,
      THEN conjunct2, THEN conjunct2, THEN conjunct2, THEN conjunct2, THEN conjunct2,
      THEN conjunct2, THEN conjunct2, THEN mp, OF mem1]
  note absent_bio0 = rows0[THEN conjunct2, THEN conjunct2, THEN conjunct1, THEN mp, OF out0]
  note present_enrol0 = rows0[THEN conjunct2, THEN conjunct2, THEN conjunct2, THEN conjunct1,
      THEN spec, THEN mp, OF ine]
  note present_demo0 = rows0[THEN conjunct2, THEN conjunct2, THEN conjunct2, THEN conjunct2,
      THEN conjunct1, THEN spec, THEN mp, OF ind]
  note absent_enrol1 = rows1[THEN conjunct1, THEN mp, OF oute]
  note absent_demo1 = rows1[THEN conjunct2, THEN conjunct1, THEN mp, OF outd]
  note present_bio1 = rows1[THEN conjunct2, THEN conjunct2, THEN conjunct2, THEN conjunct2,
      THEN conjunct2, THEN spec, THEN mp, OF inb]
  have e_vals: "ea_age_0_5 ?e = 1 + 3 \<and> ea_age_5_17 ?e = 0 + 4 \<and> ea_age_18_greater ?e = 2 + 0
      \<and> ea_enrol_count ?e = 1"
    using enrol_sums unfolding k0
    by (simp add: ex_join_enrol_def enrol_key_def mk_key_def)
  have d_vals: "da_demo_age_5_17 ?d = 2 + 5 \<and> da_demo_age_17 ?d = 3 + 7 \<and> da_demo_count ?d = 2"
    using demo_sums unfolding k0
    by (simp add: ex_join_demo_def demo_key_def mk_key_def)
  have b_vals: "ba_bio_age_5_17 ?b = 1 + 2 \<and> ba_bio_age_17 ?b = 3 + 4 \<and> ba_bio_count ?b = 2"
    using bio_sums unfolding k1
    by (simp add: ex_join_bio_def bio_key_def mk_key_def)
  show ?thesis
    using mem0 mem1 keys absent_bio0 present_enrol0 present_demo0 absent_enrol1 absent_demo1
      present_bio1 e_vals d_vals b_vals
    by simp
qed

subsection \<open>Dependence on the listing order and on the clock\<close>



























end
